theory Spec2Isabelle
  imports Main "HOL-Library.Sublist"
begin

section \<open>Data model\<close>

text \<open>
  The declarations of \<^verbatim>\<open>rules/rule.ts\<close> and of the \<^verbatim>\<open>jsonc-parser\<close> package are
  imported by every source file. A \<^verbatim>\<open>jsonc.Node\<close> is used through its \<^verbatim>\<open>offset\<close>, its
  \<^verbatim>\<open>length\<close> and the value \<^verbatim>\<open>jsonc.getNodeValue\<close> computes from it; the record below
  carries exactly these three (\<open>length'\<close> is the field \<^verbatim>\<open>length\<close>, \<open>nodeValue n\<close> is
  \<^verbatim>\<open>jsonc.getNodeValue(n)\<close>). The type of the value is a parameter of the engine, which
  never looks at it.
\<close>

record 'v Node =
  offset :: nat
  length' :: nat
  nodeValue :: 'v

text \<open>
  Modelled from the spec: the result types of \<^verbatim>\<open>rules/rule.ts\<close>, which is not among the
  sources. A result has the fields \<^verbatim>\<open>ruleId\<close>, \<^verbatim>\<open>message\<close>, \<^verbatim>\<open>node\<close> and an optional
  \<^verbatim>\<open>suggestion\<close>, a title with a list of edits; these are the fields the code reads and
  writes. One edit is \<^verbatim>\<open>{ newText, offset, length }\<close>; the last two fields are
  \<open>edit_offset\<close> and \<open>edit_length\<close> here.
\<close>

record TextEdit =
  newText :: string
  edit_offset :: nat
  edit_length :: nat

record Suggestion =
  title :: string
  edits :: "TextEdit list"

record 'v LintResult =
  ruleId :: string
  message :: string
  node :: "'v Node"
  suggestion :: "Suggestion option"

text \<open>
  Modelled from the spec: the enumeration \<^verbatim>\<open>LintSeverity\<close> of \<^verbatim>\<open>rules/rule.ts\<close>, with the
  four members the specification lists and the code names (\<^verbatim>\<open>vscodeAdapter.ts\<close>, lines 21
  to 28). \<open>Unrecognized\<close> stands for any other value that reaches a \<^verbatim>\<open>switch\<close> over a
  severity at run time.
\<close>

datatype LintSeverity = Error | Warning | Information | Hint | Unrecognized string

text \<open>
  \<^verbatim>\<open>LinterRuleConfig\<close>, as \<^verbatim>\<open>getConfig\<close> of the suggested-metric rule builds it. The fields
  \<^verbatim>\<open>id\<close>, \<^verbatim>\<open>name\<close> and \<^verbatim>\<open>description\<close> are \<open>config_id\<close>, \<open>config_name\<close> and
  \<open>config_description\<close>.
\<close>

record LinterRuleConfig =
  config_id :: string
  config_name :: string
  config_description :: string
  severity :: LintSeverity
  enabled :: bool

text \<open>
  What a JavaScript call can throw: \<^verbatim>\<open>new Error(message)\<close>, or the \<^verbatim>\<open>TypeError\<close> the
  run time raises when a value that is not a function is called.
\<close>

datatype exception = JsError string | JsTypeError string

text \<open>
  The return value of \<^verbatim>\<open>validateSignal\<close> and \<^verbatim>\<open>validateCommand\<close>,
  \<^verbatim>\<open>LintResult | LintResult[] | null\<close>. The other two entry points return
  \<^verbatim>\<open>LintResult[] | null\<close>, an optional list.
\<close>

datatype 'v RuleResult =
  ReturnNull
| ReturnOne "'v LintResult"
| ReturnArray "'v LintResult list"

text \<open>
  Modelled from the spec: \<^verbatim>\<open>ILinterRule\<close> of \<^verbatim>\<open>rules/rule.ts\<close>, the rule contract of the
  specification: the configuration and four optional entry points. An entry point a
  rule does not implement is \<open>None\<close>; one it implements is a function of the call's
  arguments that returns a value or throws. \<open>'t\<close> is the target type
  \<^verbatim>\<open>Signal | SignalGroup\<close>, \<open>'c\<close> the type \<^verbatim>\<open>Command\<close>.
\<close>

record ('t, 'c, 'v) ILinterRule =
  getConfig :: LinterRuleConfig
  validateSignal :: "('t \<Rightarrow> 'v Node \<Rightarrow> exception + 'v RuleResult) option"
  validateCommand ::
    "('c \<Rightarrow> 'v Node \<Rightarrow> ('t \<times> 'v Node) list \<Rightarrow> exception + 'v RuleResult) option"
  validateCommands :: "('v Node \<Rightarrow> exception + 'v LintResult list option) option"
  validateDocument :: "('v Node \<Rightarrow> exception + 'v LintResult list option) option"

text \<open>
  \<^verbatim>\<open>RuleRegistry\<close> (\<^verbatim>\<open>ruleRegistry.ts\<close>, not among the sources) is used through two
  methods only. A registry
  state is given by what they return: the list \<^verbatim>\<open>getEnabledRules()\<close> and the lookup
  \<^verbatim>\<open>getRuleById(id)\<close>. Nothing is assumed about how the two relate.
\<close>

record ('t, 'c, 'v) RuleRegistry =
  getEnabledRules :: "('t, 'c, 'v) ILinterRule list"
  getRuleById :: "string \<Rightarrow> ('t, 'c, 'v) ILinterRule option"

section \<open>The analysis engine (baseLinter.ts)\<close>

record ('t, 'c, 'v) BaseLinter =
  ruleRegistry :: "('t, 'c, 'v) RuleRegistry"

text \<open>
  The constructor stores \<^verbatim>\<open>RuleRegistry.getInstance()\<close>, the process-wide registry, which
  is an argument here.
\<close>

definition BaseLinter_new :: "('t, 'c, 'v) RuleRegistry \<Rightarrow> ('t, 'c, 'v) BaseLinter" where
  "BaseLinter_new instance = \<lparr>ruleRegistry = instance\<rparr>"

text \<open>
  Each method is one \<^verbatim>\<open>for ... of\<close> loop over the enabled rules that pushes onto
  \<^verbatim>\<open>results\<close>; the loop is a recursion on the rules left, with \<^verbatim>\<open>results\<close> as
  accumulator. An exception of a rule leaves the loop and the method.
\<close>

fun lintSignal_loop ::
  "('t, 'c, 'v) ILinterRule list \<Rightarrow> 't \<Rightarrow> 'v Node \<Rightarrow> 'v LintResult list
    \<Rightarrow> exception + 'v LintResult list" where
  "lintSignal_loop [] target node' results = Inr results"
| "lintSignal_loop (rule # rest) target node' results =
     (case validateSignal rule of
        None \<Rightarrow> lintSignal_loop rest target node' results
      | Some validate \<Rightarrow>
          (case validate target node' of
             Inl e \<Rightarrow> Inl e
           | Inr ReturnNull \<Rightarrow> lintSignal_loop rest target node' results
           | Inr (ReturnArray ruleResult) \<Rightarrow>
               lintSignal_loop rest target node' (results @ ruleResult)
           | Inr (ReturnOne ruleResult) \<Rightarrow>
               lintSignal_loop rest target node' (results @ [ruleResult])))"

definition lintSignal ::
  "('t, 'c, 'v, 'z) BaseLinter_scheme \<Rightarrow> 't \<Rightarrow> 'v Node \<Rightarrow> exception + 'v LintResult list" where
  "lintSignal this target node' =
     lintSignal_loop (getEnabledRules (ruleRegistry this)) target node' []"

fun lintCommand_loop ::
  "('t, 'c, 'v) ILinterRule list \<Rightarrow> 'c \<Rightarrow> 'v Node \<Rightarrow> ('t \<times> 'v Node) list
    \<Rightarrow> 'v LintResult list \<Rightarrow> exception + 'v LintResult list" where
  "lintCommand_loop [] command commandNode signalsInCommand results = Inr results"
| "lintCommand_loop (rule # rest) command commandNode signalsInCommand results =
     (case validateCommand rule of
        None \<Rightarrow> lintCommand_loop rest command commandNode signalsInCommand results
      | Some validate \<Rightarrow>
          (case validate command commandNode signalsInCommand of
             Inl e \<Rightarrow> Inl e
           | Inr ReturnNull \<Rightarrow>
               lintCommand_loop rest command commandNode signalsInCommand results
           | Inr (ReturnArray ruleResult) \<Rightarrow>
               lintCommand_loop rest command commandNode signalsInCommand
                 (results @ ruleResult)
           | Inr (ReturnOne ruleResult) \<Rightarrow>
               lintCommand_loop rest command commandNode signalsInCommand
                 (results @ [ruleResult])))"

definition lintCommand ::
  "('t, 'c, 'v, 'z) BaseLinter_scheme \<Rightarrow> 'c \<Rightarrow> 'v Node \<Rightarrow> ('t \<times> 'v Node) list
    \<Rightarrow> exception + 'v LintResult list" where
  "lintCommand this command commandNode signalsInCommand =
     lintCommand_loop (getEnabledRules (ruleRegistry this)) command commandNode
       signalsInCommand []"

fun lintCommands_loop ::
  "('t, 'c, 'v) ILinterRule list \<Rightarrow> 'v Node \<Rightarrow> 'v LintResult list
    \<Rightarrow> exception + 'v LintResult list" where
  "lintCommands_loop [] commandsNode results = Inr results"
| "lintCommands_loop (rule # rest) commandsNode results =
     (case validateCommands rule of
        None \<Rightarrow> lintCommands_loop rest commandsNode results
      | Some validate \<Rightarrow>
          (case validate commandsNode of
             Inl e \<Rightarrow> Inl e
           | Inr None \<Rightarrow> lintCommands_loop rest commandsNode results
           | Inr (Some ruleResult) \<Rightarrow>
               lintCommands_loop rest commandsNode (results @ ruleResult)))"

definition lintCommands ::
  "('t, 'c, 'v, 'z) BaseLinter_scheme \<Rightarrow> 'v Node \<Rightarrow> exception + 'v LintResult list" where
  "lintCommands this commandsNode =
     lintCommands_loop (getEnabledRules (ruleRegistry this)) commandsNode []"

fun lintDocument_loop ::
  "('t, 'c, 'v) ILinterRule list \<Rightarrow> 'v Node \<Rightarrow> 'v LintResult list
    \<Rightarrow> exception + 'v LintResult list" where
  "lintDocument_loop [] rootNode results = Inr results"
| "lintDocument_loop (rule # rest) rootNode results =
     (case validateDocument rule of
        None \<Rightarrow> lintDocument_loop rest rootNode results
      | Some validate \<Rightarrow>
          (case validate rootNode of
             Inl e \<Rightarrow> Inl e
           | Inr None \<Rightarrow> lintDocument_loop rest rootNode results
           | Inr (Some ruleResult) \<Rightarrow>
               lintDocument_loop rest rootNode (results @ ruleResult)))"

definition lintDocument ::
  "('t, 'c, 'v, 'z) BaseLinter_scheme \<Rightarrow> 'v Node \<Rightarrow> exception + 'v LintResult list" where
  "lintDocument this rootNode =
     lintDocument_loop (getEnabledRules (ruleRegistry this)) rootNode []"

section \<open>The standalone command-line linter (linterCli.ts)\<close>

text \<open>
  \<^verbatim>\<open>linterCli.ts\<close> declares a class \<^verbatim>\<open>CliSignalLinter\<close> of its own, with a private
  \<^verbatim>\<open>ruleRegistry\<close> (here \<open>cliRuleRegistry\<close>) and its own copies of the four loops.
\<close>

record ('t, 'c, 'v) CliSignalLinter =
  cliRuleRegistry :: "('t, 'c, 'v) RuleRegistry"

definition CliSignalLinter_new ::
  "('t, 'c, 'v) RuleRegistry \<Rightarrow> ('t, 'c, 'v) CliSignalLinter" where
  "CliSignalLinter_new instance = \<lparr>cliRuleRegistry = instance\<rparr>"

fun CliSignalLinter_lintSignal_loop ::
  "('t, 'c, 'v) ILinterRule list \<Rightarrow> 't \<Rightarrow> 'v Node \<Rightarrow> 'v LintResult list
    \<Rightarrow> exception + 'v LintResult list" where
  "CliSignalLinter_lintSignal_loop [] target node' results = Inr results"
| "CliSignalLinter_lintSignal_loop (rule # rest) target node' results =
     (case validateSignal rule of
        None \<Rightarrow> CliSignalLinter_lintSignal_loop rest target node' results
      | Some validate \<Rightarrow>
          (case validate target node' of
             Inl e \<Rightarrow> Inl e
           | Inr ReturnNull \<Rightarrow> CliSignalLinter_lintSignal_loop rest target node' results
           | Inr (ReturnArray ruleResult) \<Rightarrow>
               CliSignalLinter_lintSignal_loop rest target node' (results @ ruleResult)
           | Inr (ReturnOne ruleResult) \<Rightarrow>
               CliSignalLinter_lintSignal_loop rest target node' (results @ [ruleResult])))"

definition CliSignalLinter_lintSignal ::
  "('t, 'c, 'v) CliSignalLinter \<Rightarrow> 't \<Rightarrow> 'v Node \<Rightarrow> exception + 'v LintResult list" where
  "CliSignalLinter_lintSignal this target node' =
     CliSignalLinter_lintSignal_loop (getEnabledRules (cliRuleRegistry this)) target node' []"

fun CliSignalLinter_lintCommand_loop ::
  "('t, 'c, 'v) ILinterRule list \<Rightarrow> 'c \<Rightarrow> 'v Node \<Rightarrow> ('t \<times> 'v Node) list
    \<Rightarrow> 'v LintResult list \<Rightarrow> exception + 'v LintResult list" where
  "CliSignalLinter_lintCommand_loop [] command commandNode signalsInCommand results =
     Inr results"
| "CliSignalLinter_lintCommand_loop (rule # rest) command commandNode signalsInCommand
     results =
     (case validateCommand rule of
        None \<Rightarrow>
          CliSignalLinter_lintCommand_loop rest command commandNode signalsInCommand results
      | Some validate \<Rightarrow>
          (case validate command commandNode signalsInCommand of
             Inl e \<Rightarrow> Inl e
           | Inr ReturnNull \<Rightarrow>
               CliSignalLinter_lintCommand_loop rest command commandNode signalsInCommand
                 results
           | Inr (ReturnArray ruleResult) \<Rightarrow>
               CliSignalLinter_lintCommand_loop rest command commandNode signalsInCommand
                 (results @ ruleResult)
           | Inr (ReturnOne ruleResult) \<Rightarrow>
               CliSignalLinter_lintCommand_loop rest command commandNode signalsInCommand
                 (results @ [ruleResult])))"

definition CliSignalLinter_lintCommand ::
  "('t, 'c, 'v) CliSignalLinter \<Rightarrow> 'c \<Rightarrow> 'v Node \<Rightarrow> ('t \<times> 'v Node) list
    \<Rightarrow> exception + 'v LintResult list" where
  "CliSignalLinter_lintCommand this command commandNode signalsInCommand =
     CliSignalLinter_lintCommand_loop (getEnabledRules (cliRuleRegistry this)) command
       commandNode signalsInCommand []"

fun CliSignalLinter_lintCommands_loop ::
  "('t, 'c, 'v) ILinterRule list \<Rightarrow> 'v Node \<Rightarrow> 'v LintResult list
    \<Rightarrow> exception + 'v LintResult list" where
  "CliSignalLinter_lintCommands_loop [] commandsNode results = Inr results"
| "CliSignalLinter_lintCommands_loop (rule # rest) commandsNode results =
     (case validateCommands rule of
        None \<Rightarrow> CliSignalLinter_lintCommands_loop rest commandsNode results
      | Some validate \<Rightarrow>
          (case validate commandsNode of
             Inl e \<Rightarrow> Inl e
           | Inr None \<Rightarrow> CliSignalLinter_lintCommands_loop rest commandsNode results
           | Inr (Some ruleResult) \<Rightarrow>
               CliSignalLinter_lintCommands_loop rest commandsNode (results @ ruleResult)))"

definition CliSignalLinter_lintCommands ::
  "('t, 'c, 'v) CliSignalLinter \<Rightarrow> 'v Node \<Rightarrow> exception + 'v LintResult list" where
  "CliSignalLinter_lintCommands this commandsNode =
     CliSignalLinter_lintCommands_loop (getEnabledRules (cliRuleRegistry this))
       commandsNode []"

fun CliSignalLinter_lintDocument_loop ::
  "('t, 'c, 'v) ILinterRule list \<Rightarrow> 'v Node \<Rightarrow> 'v LintResult list
    \<Rightarrow> exception + 'v LintResult list" where
  "CliSignalLinter_lintDocument_loop [] rootNode results = Inr results"
| "CliSignalLinter_lintDocument_loop (rule # rest) rootNode results =
     (case validateDocument rule of
        None \<Rightarrow> CliSignalLinter_lintDocument_loop rest rootNode results
      | Some validate \<Rightarrow>
          (case validate rootNode of
             Inl e \<Rightarrow> Inl e
           | Inr None \<Rightarrow> CliSignalLinter_lintDocument_loop rest rootNode results
           | Inr (Some ruleResult) \<Rightarrow>
               CliSignalLinter_lintDocument_loop rest rootNode (results @ ruleResult)))"

definition CliSignalLinter_lintDocument ::
  "('t, 'c, 'v) CliSignalLinter \<Rightarrow> 'v Node \<Rightarrow> exception + 'v LintResult list" where
  "CliSignalLinter_lintDocument this rootNode =
     CliSignalLinter_lintDocument_loop (getEnabledRules (cliRuleRegistry this)) rootNode []"

section \<open>JSON values and JavaScript objects\<close>

text \<open>
  The values \<^verbatim>\<open>jsonc.getNodeValue\<close> returns. A number is kept as the text
  \<^verbatim>\<open>JSON.stringify\<close> prints for it, which is all this development needs of it. A
  \<open>char\<close> stands for one code unit of a JavaScript string. The properties of an object
  are listed in the order \<^verbatim>\<open>Object.keys\<close> and \<^verbatim>\<open>JSON.stringify\<close> enumerate them.
\<close>

datatype json =
  JNull
| JBool bool
| JNum string
| JStr string
| JArr "json list"
| JObj "(string \<times> json) list"

type_synonym JsProperties = "(string \<times> json) list"

text \<open>
  JavaScript orders the own properties of an ordinary object: first the keys that are
  array indices (the canonical decimal form of an integer from 0 to 4294967294), in
  ascending numeric order, then every other string key in the order of creation.
\<close>

definition isDigit :: "char \<Rightarrow> bool" where
  "isDigit c = (c \<in> set ''0123456789'')"

definition decimalValue :: "string \<Rightarrow> int" where
  "decimalValue key = foldl (\<lambda>n c. 10 * n + (of_char c - 48)) 0 key"

definition isArrayIndex :: "string \<Rightarrow> bool" where
  "isArrayIndex key =
     (key \<noteq> [] \<and> list_all isDigit key \<and> (key = ''0'' \<or> hd key \<noteq> CHR ''0'')
      \<and> decimalValue key < 4294967295)"

fun insertIndexProperty :: "string \<Rightarrow> json \<Rightarrow> JsProperties \<Rightarrow> JsProperties" where
  "insertIndexProperty key v [] = [(key, v)]"
| "insertIndexProperty key v ((key', v') # rest) =
     (if isArrayIndex key' \<and> decimalValue key' < decimalValue key
      then (key', v') # insertIndexProperty key v rest
      else (key, v) # (key', v') # rest)"

text \<open>
  Storing a data property: the value of a key the object has is replaced where it
  stands; a new key takes its place in the order above.
\<close>

definition setProperty :: "JsProperties \<Rightarrow> string \<Rightarrow> json \<Rightarrow> JsProperties" where
  "setProperty props key v =
     (if key \<in> set (map fst props) then map (\<lambda>(k, w). if k = key then (k, v) else (k, w)) props
      else if isArrayIndex key then insertIndexProperty key v props
      else props @ [(key, v)])"

text \<open>
  An object created by the literal \<^verbatim>\<open>{}\<close>: its own properties, and whether
  \<^verbatim>\<open>Object.prototype\<close> is still on its prototype chain. Assigning to the key
  \<^verbatim>\<open>__proto__\<close> creates no own property; it replaces the prototype when the value is
  an object or \<^verbatim>\<open>null\<close>. The objects \<^verbatim>\<open>jsonc.getNodeValue\<close> builds have no prototype,
  arrays inherit from \<^verbatim>\<open>Object.prototype\<close>.
\<close>

record JsObject =
  ownProperties :: JsProperties
  inheritsObjectPrototype :: bool

definition emptyObject :: JsObject where
  "emptyObject = \<lparr>ownProperties = [], inheritsObjectPrototype = True\<rparr>"

definition assignProperty :: "JsObject \<Rightarrow> string \<Rightarrow> json \<Rightarrow> JsObject" where
  "assignProperty obj key v =
     (if key = ''__proto__'' \<and> inheritsObjectPrototype obj then
        (case v of
           JNull \<Rightarrow> obj\<lparr>inheritsObjectPrototype := False\<rparr>
         | JObj props \<Rightarrow> obj\<lparr>inheritsObjectPrototype := False\<rparr>
         | _ \<Rightarrow> obj)
      else obj\<lparr>ownProperties := setProperty (ownProperties obj) key v\<rparr>)"

text \<open>
  \<^verbatim>\<open>obj.hasOwnProperty(key)\<close> reads the property \<^verbatim>\<open>hasOwnProperty\<close> of the object and
  calls it. The call works when the property is the inherited built-in; an own property
  of that name holds a JSON value, and calling it is a \<^verbatim>\<open>TypeError\<close>, as is calling
  \<^verbatim>\<open>undefined\<close> when the prototype chain no longer reaches \<^verbatim>\<open>Object.prototype\<close>.
\<close>

definition hasOwnProperty :: "JsObject \<Rightarrow> string \<Rightarrow> exception + bool" where
  "hasOwnProperty obj key =
     (if ''hasOwnProperty'' \<in> set (map fst (ownProperties obj)) \<or> \<not> inheritsObjectPrototype obj
      then Inl (JsTypeError ''hasOwnProperty is not a function'')
      else Inr (key \<in> set (map fst (ownProperties obj))))"

subsection \<open>JSON.stringify\<close>

definition hexDigit :: "nat \<Rightarrow> char" where
  "hexDigit n = ''0123456789abcdef'' ! n"

definition quoteChar :: "char \<Rightarrow> string" where
  "quoteChar c =
     (if c = CHR 0x08 then [CHR 0x5C, CHR ''b'']
      else if c = CHR 0x09 then [CHR 0x5C, CHR ''t'']
      else if c = CHR 0x0A then [CHR 0x5C, CHR ''n'']
      else if c = CHR 0x0C then [CHR 0x5C, CHR ''f'']
      else if c = CHR 0x0D then [CHR 0x5C, CHR ''r'']
      else if c = CHR 0x22 then [CHR 0x5C, CHR 0x22]
      else if c = CHR 0x5C then [CHR 0x5C, CHR 0x5C]
      else if (of_char c :: nat) < 32 then
        [CHR 0x5C, CHR ''u'', CHR ''0'', CHR ''0'',
         hexDigit ((of_char c :: nat) div 16), hexDigit ((of_char c :: nat) mod 16)]
      else [c])"

definition quoteJSONString :: "string \<Rightarrow> string" where
  "quoteJSONString s = [CHR 0x22] @ concat (map quoteChar s) @ [CHR 0x22]"

fun joinWith :: "string \<Rightarrow> string list \<Rightarrow> string" where
  "joinWith sep [] = []"
| "joinWith sep [x] = x"
| "joinWith sep (x # y # ys) = x @ sep @ joinWith sep (y # ys)"

text \<open>
  \<^verbatim>\<open>JSON.stringify(value)\<close> with one argument: no indentation, the properties of an
  object in their enumeration order.
\<close>

fun JSON_stringify :: "json \<Rightarrow> string" where
  "JSON_stringify JNull = ''null''"
| "JSON_stringify (JBool b) = (if b then ''true'' else ''false'')"
| "JSON_stringify (JNum text) = text"
| "JSON_stringify (JStr s) = quoteJSONString s"
| "JSON_stringify (JArr elements) =
     ''['' @ joinWith '','' (map JSON_stringify elements) @ '']''"
| "JSON_stringify (JObj props) =
     ''{'' @ joinWith '',''
       (map (\<lambda>(key, v). quoteJSONString key @ '':'' @ JSON_stringify v) props) @ ''}''"

section \<open>The suggested-metric rule (rules/suggestedMetricSuggestionRule.ts)\<close>

text \<open>
  Modelled from the spec: \<^verbatim>\<open>Signal\<close> of \<^verbatim>\<open>rules/rule.ts\<close>. The rule reads three of its
  properties, each a string by the data model of the specification; \<open>None\<close> is a
  property the signal does not have. \<open>id'\<close> is the property \<^verbatim>\<open>id\<close>.
\<close>

record Signal =
  id' :: "string option"
  name :: "string option"
  suggestedMetric :: "string option"

text \<open>
  The truth value JavaScript gives a string that may be absent: \<^verbatim>\<open>undefined\<close> and
  the empty string are false.
\<close>

fun truthy :: "string option \<Rightarrow> bool" where
  "truthy None = False"
| "truthy (Some s) = (s \<noteq> [])"

text \<open>
  \<^verbatim>\<open>METRIC_PATTERNS\<close> (\<^verbatim>\<open>utils/suggestedMetricPatterns.ts\<close>) is an argument: a list of
  patterns with the five properties the rule reads (\<open>pattern_suggestedMetric\<close> is the
  property \<^verbatim>\<open>suggestedMetric\<close> of a pattern). A regular expression is used through
  \<^verbatim>\<open>test\<close> only and is the predicate \<^verbatim>\<open>test\<close> computes; this takes the expressions
  of the table to have neither the \<^verbatim>\<open>g\<close> nor the \<^verbatim>\<open>y\<close> flag, with which \<^verbatim>\<open>test\<close>
  would depend on earlier calls.
\<close>

type_synonym RegExp = "string \<Rightarrow> bool"

record MetricPattern =
  idPattern :: "RegExp option"
  namePattern :: "RegExp option"
  excludeNamePattern :: "RegExp option"
  pattern_suggestedMetric :: string
  description :: string

record SuggestedMetricSuggestionRule =
  metricPatterns :: "MetricPattern list"

definition SuggestedMetricSuggestionRule_getConfig :: LinterRuleConfig where
  "SuggestedMetricSuggestionRule_getConfig =
     \<lparr>config_id = ''suggested-metric-suggestion'',
      config_name = ''Suggested Metric Suggestion'',
      config_description =
        ''Suggests adding suggestedMetric properties based on signal ID and name patterns'',
      severity = LintSeverity.Information,
      enabled = False\<rparr>"

text \<open>
  The loop over \<^verbatim>\<open>Object.keys(signalObj)\<close> that adds the remaining properties. The
  list holds the keys left, each with \<^verbatim>\<open>signalObj[key]\<close>.
\<close>

fun addRemainingProperties :: "JsProperties \<Rightarrow> JsObject \<Rightarrow> exception + JsObject" where
  "addRemainingProperties [] orderedSignal = Inr orderedSignal"
| "addRemainingProperties ((key, v) # rest) orderedSignal =
     (case hasOwnProperty orderedSignal key of
        Inl e \<Rightarrow> Inl e
      | Inr True \<Rightarrow> addRemainingProperties rest orderedSignal
      | Inr False \<Rightarrow> addRemainingProperties rest (assignProperty orderedSignal key v))"

text \<open>
  \<^verbatim>\<open>orderedSignal.id = signalObj.id\<close> under the test \<^verbatim>\<open>signalObj.id !== undefined\<close>, for a
  property name written in the code. A JSON value is never \<^verbatim>\<open>undefined\<close>, so the test
  asks whether the property is there.
\<close>

definition copyIfDefined :: "JsProperties \<Rightarrow> string \<Rightarrow> JsObject \<Rightarrow> JsObject" where
  "copyIfDefined signalObj key orderedSignal =
     (case map_of signalObj key of
        None \<Rightarrow> orderedSignal
      | Some v \<Rightarrow>
          orderedSignal\<lparr>ownProperties := setProperty (ownProperties orderedSignal) key v\<rparr>)"

text \<open>
  The node is the signal's node, whose value is an object; its properties are
  \<open>nodeValue node'\<close>. The method does not read its parameter \<^verbatim>\<open>signal\<close>.
\<close>

definition createSignalWithSuggestedMetric ::
  "Signal \<Rightarrow> JsProperties Node \<Rightarrow> string \<Rightarrow> exception + string" where
  "createSignalWithSuggestedMetric signal node' metric =
     (let signalObj = nodeValue node';
          orderedSignal = emptyObject;
          orderedSignal = copyIfDefined signalObj ''id'' orderedSignal;
          orderedSignal = copyIfDefined signalObj ''path'' orderedSignal;
          orderedSignal = copyIfDefined signalObj ''fmt'' orderedSignal;
          orderedSignal = copyIfDefined signalObj ''name'' orderedSignal;
          orderedSignal = orderedSignal\<lparr>ownProperties :=
            setProperty (ownProperties orderedSignal) ''suggestedMetric'' (JStr metric)\<rparr>
      in case addRemainingProperties signalObj orderedSignal of
           Inl e \<Rightarrow> Inl e
         | Inr orderedSignal \<Rightarrow> Inr (JSON_stringify (JObj (ownProperties orderedSignal))))"

text \<open>The object returned for a pattern that matches.\<close>

definition matchResult ::
  "Signal \<Rightarrow> JsProperties Node \<Rightarrow> MetricPattern \<Rightarrow> exception + JsProperties LintResult" where
  \<open>matchResult signal node' pattern =
     (case createSignalWithSuggestedMetric signal node' (pattern_suggestedMetric pattern) of
        Inl e \<Rightarrow> Inl e
      | Inr text \<Rightarrow>
          Inr \<lparr>ruleId = config_id SuggestedMetricSuggestionRule_getConfig,
               message = ''Consider adding suggestedMetric: "'' @ pattern_suggestedMetric pattern
                 @ ''" ('' @ description pattern @ '')'',
               node = node',
               suggestion = Some
                 \<lparr>title = ''Add suggestedMetric: "'' @ pattern_suggestedMetric pattern @ ''"'',
                  edits = [\<lparr>newText = text, edit_offset = offset node',
                            edit_length = length' node'\<rparr>]\<rparr>\<rparr>)\<close>

text \<open>
  Whether the \<^verbatim>\<open>if\<close> of the loop body holds for a pattern, given \<^verbatim>\<open>signal.id\<close> and
  \<^verbatim>\<open>signal.name\<close>.
\<close>

definition patternApplies :: "MetricPattern \<Rightarrow> string \<Rightarrow> string \<Rightarrow> bool" where
  "patternApplies pattern signalId signalName =
     (let idMatches = (case idPattern pattern of Some re \<Rightarrow> re signalId | None \<Rightarrow> False);
          nameMatches = (case namePattern pattern of Some re \<Rightarrow> re signalName | None \<Rightarrow> False);
          excludedByName =
            (case excludeNamePattern pattern of Some re \<Rightarrow> re signalName | None \<Rightarrow> False)
      in (idMatches \<or> nameMatches) \<and> \<not> excludedByName)"

fun checkPatterns ::
  "MetricPattern list \<Rightarrow> Signal \<Rightarrow> string \<Rightarrow> string \<Rightarrow> JsProperties Node
    \<Rightarrow> exception + JsProperties LintResult option" where
  "checkPatterns [] signal signalId signalName node' = Inr None"
| "checkPatterns (pattern # rest) signal signalId signalName node' =
     (if patternApplies pattern signalId signalName
      then (case matchResult signal node' pattern of Inl e \<Rightarrow> Inl e | Inr r \<Rightarrow> Inr (Some r))
      else checkPatterns rest signal signalId signalName node')"

definition SuggestedMetricSuggestionRule_validateSignal ::
  "SuggestedMetricSuggestionRule \<Rightarrow> Signal \<Rightarrow> JsProperties Node
    \<Rightarrow> exception + JsProperties LintResult option" where
  "SuggestedMetricSuggestionRule_validateSignal this signal node' =
     (if truthy (suggestedMetric signal) then Inr None
      else if \<not> truthy (id' signal) \<or> \<not> truthy (name signal) then Inr None
      else (case (id' signal, name signal) of
              (Some signalId, Some signalName) \<Rightarrow>
                checkPatterns (metricPatterns this) signal signalId signalName node'
            | _ \<Rightarrow> Inr None))"

text \<open>The rule as the engine sees it: it implements \<^verbatim>\<open>validateSignal\<close> only.\<close>

definition SuggestedMetricSuggestionRule_rule ::
  "SuggestedMetricSuggestionRule \<Rightarrow> (Signal, 'c, JsProperties) ILinterRule" where
  "SuggestedMetricSuggestionRule_rule this =
     \<lparr>getConfig = SuggestedMetricSuggestionRule_getConfig,
      validateSignal = Some (\<lambda>signal node'.
        case SuggestedMetricSuggestionRule_validateSignal this signal node' of
          Inl e \<Rightarrow> Inl e
        | Inr None \<Rightarrow> Inr ReturnNull
        | Inr (Some r) \<Rightarrow> Inr (ReturnOne r)),
      validateCommand = None,
      validateCommands = None,
      validateDocument = None\<rparr>"

section \<open>The editor adapter (vscodeAdapter.ts)\<close>

text \<open>
  \<^verbatim>\<open>vscode.DiagnosticSeverity\<close>, \<^verbatim>\<open>Position\<close>, \<^verbatim>\<open>Range\<close> and \<^verbatim>\<open>Diagnostic\<close>, with the
  shape \<^verbatim>\<open>vscodeShim.ts\<close> gives them. The fields \<^verbatim>\<open>start\<close> and \<^verbatim>\<open>end\<close> of a range are
  \<open>range_start\<close> and \<open>range_end\<close>; \<^verbatim>\<open>range\<close>, \<^verbatim>\<open>message\<close> and \<^verbatim>\<open>severity\<close> of a
  diagnostic are \<open>range'\<close>, \<open>diagnostic_message\<close> and \<open>diagnostic_severity\<close>. A document
  is used through \<^verbatim>\<open>positionAt\<close> only.
\<close>

datatype DiagnosticSeverity = Error | Warning | Information | Hint










section \<open>The editor's linter (class SignalLinter)\<close>

record ('t, 'c, 'v) SignalLinter = "('t, 'c, 'v) BaseLinter" +
  lastResults :: "'v LintResult list"


definition getLastResults :: "('t, 'c, 'v) SignalLinter \<Rightarrow> 'v LintResult list" where
  "getLastResults this = lastResults this"

definition setLastResults ::
  "('t, 'c, 'v) SignalLinter \<Rightarrow> 'v LintResult list \<Rightarrow> ('t, 'c, 'v) SignalLinter" where
  "setLastResults this results = this\<lparr>lastResults := results\<rparr>"



section \<open>Grouping in the command-line front-end (cli.ts)\<close>

text \<open>\<^verbatim>\<open>s.includes(search)\<close>: \<open>search\<close> occurs in \<open>s\<close> as a contiguous run.\<close>

fun String_includes :: "string \<Rightarrow> string \<Rightarrow> bool" where
  "String_includes [] search = (search = [])"
| "String_includes (c # cs) search = (prefix search (c # cs) \<or> String_includes cs search)"

text \<open>
  Lines 396 to 398 of \<^verbatim>\<open>lintCommand\<close> in \<^verbatim>\<open>cli.ts\<close>: the three filters over
  \<^verbatim>\<open>allResults\<close> that give \<^verbatim>\<open>errors\<close>, \<^verbatim>\<open>warnings\<close> and \<^verbatim>\<open>info\<close>. \<^verbatim>\<open>errors.includes(r)\<close>
  compares objects by identity; \<open>errors\<close> holds exactly the elements of \<open>allResults\<close>
  that pass a test on their fields, so membership by value gives the same answer.
\<close>

definition cli_lintCommand_errors :: "'v LintResult list \<Rightarrow> 'v LintResult list" where
  "cli_lintCommand_errors allResults =
     filter (\<lambda>r. String_includes (ruleId r) ''Error'' \<or> String_includes (message r) ''error'')
       allResults"

definition cli_lintCommand_warnings :: "'v LintResult list \<Rightarrow> 'v LintResult list" where
  "cli_lintCommand_warnings allResults =
     filter (\<lambda>r. String_includes (ruleId r) ''Warning'' \<or> String_includes (message r) ''warning'')
       allResults"

definition cli_lintCommand_info :: "'v LintResult list \<Rightarrow> 'v LintResult list" where
  "cli_lintCommand_info allResults =
     (let errors = cli_lintCommand_errors allResults;
          warnings = cli_lintCommand_warnings allResults
      in filter (\<lambda>r. r \<notin> set errors \<and> r \<notin> set warnings) allResults)"

section \<open>The external parser (jsonc-parser)\<close>

text \<open>
  Modelled from the spec: the parser is an external collaborator, which the repository
  imports and does not contain (\<^verbatim>\<open>parse document to tree\<close>, \<^verbatim>\<open>get node value\<close>,
  \<^verbatim>\<open>node has offset+length\<close>). The model reads one JSON value at the start of a text,
  white space skipped before each token, and returns it with the text that follows.
  Comments, which the dialect allows, are not read: a text written by \<^verbatim>\<open>JSON.stringify\<close>
  has none. A number keeps its token, as \<open>JNum\<close> holds it. A character is one of the 256
  of \<^typ>\<open>char\<close>, so an escape with four hexadecimal digits is read for the code points
  below 256 only. The counter bounds the calls that are nested when a value is read; for
  a text that \<open>JSON_stringify\<close> writes its length is enough, as is proved below.
\<close>

definition isWhitespace :: "char \<Rightarrow> bool" where
  "isWhitespace c = (c \<in> set [CHR 0x20, CHR 0x09, CHR 0x0A, CHR 0x0D])"

fun skipWhitespace :: "string \<Rightarrow> string" where
  "skipWhitespace [] = []"
| "skipWhitespace (c # cs) = (if isWhitespace c then skipWhitespace cs else c # cs)"

definition hexValue :: "char \<Rightarrow> nat option" where
  "hexValue c =
     (if isDigit c then Some (of_char c - 48)
      else if c \<in> set ''abcdef'' then Some (of_char c - 87)
      else if c \<in> set ''ABCDEF'' then Some (of_char c - 55)
      else None)"

definition unescape :: "char \<Rightarrow> char option" where
  "unescape c =
     (if c = CHR 0x22 then Some (CHR 0x22)
      else if c = CHR 0x5C then Some (CHR 0x5C)
      else if c = CHR ''/'' then Some (CHR ''/'')
      else if c = CHR ''b'' then Some (CHR 0x08)
      else if c = CHR ''f'' then Some (CHR 0x0C)
      else if c = CHR ''n'' then Some (CHR 0x0A)
      else if c = CHR ''r'' then Some (CHR 0x0D)
      else if c = CHR ''t'' then Some (CHR 0x09)
      else None)"

definition unicodeEscape :: "string \<Rightarrow> char option" where
  "unicodeEscape digits =
     (case map hexValue digits of
        [Some a, Some b, Some c, Some d] \<Rightarrow>
          if a = 0 \<and> b = 0 then Some (char_of (16 * c + d)) else None
      | _ \<Rightarrow> None)"

fun parseStringChars :: "string \<Rightarrow> (string \<times> string) option" where
  "parseStringChars [] = None"
| "parseStringChars (c # cs) =
     (if c = CHR 0x22 then Some ([], cs)
      else if c = CHR 0x5C then
        (case cs of
           [] \<Rightarrow> None
         | e # rest \<Rightarrow>
             if e = CHR ''u'' then
               (case unicodeEscape (take 4 rest) of
                  None \<Rightarrow> None
                | Some ch \<Rightarrow>
                    map_option (\<lambda>(s, r). (ch # s, r)) (parseStringChars (drop 4 rest)))
             else
               (case unescape e of
                  None \<Rightarrow> None
                | Some ch \<Rightarrow> map_option (\<lambda>(s, r). (ch # s, r)) (parseStringChars rest)))
      else if (of_char c :: nat) < 32 then None
      else map_option (\<lambda>(s, r). (c # s, r)) (parseStringChars cs))"

definition isNumberChar :: "char \<Rightarrow> bool" where
  "isNumberChar c = (c \<in> set ''0123456789+-.eE'')"

fun parseValue :: "nat \<Rightarrow> string \<Rightarrow> (json \<times> string) option"
  and parseElements :: "nat \<Rightarrow> string \<Rightarrow> (json list \<times> string) option"
  and parseMembers :: "nat \<Rightarrow> string \<Rightarrow> ((string \<times> json) list \<times> string) option" where
  "parseValue 0 s = None"
| "parseValue (Suc n) s =
     (case skipWhitespace s of
        [] \<Rightarrow> None
      | c # cs \<Rightarrow>
          if c = CHR ''{'' then
            (case skipWhitespace cs of
               [] \<Rightarrow> None
             | d # ds \<Rightarrow>
                 if d = CHR ''}'' then Some (JObj [], ds)
                 else map_option (\<lambda>(members, r). (JObj members, r)) (parseMembers n (d # ds)))
          else if c = CHR ''['' then
            (case skipWhitespace cs of
               [] \<Rightarrow> None
             | d # ds \<Rightarrow>
                 if d = CHR '']'' then Some (JArr [], ds)
                 else map_option (\<lambda>(elements, r). (JArr elements, r)) (parseElements n (d # ds)))
          else if c = CHR 0x22 then
            map_option (\<lambda>(str, r). (JStr str, r)) (parseStringChars cs)
          else if c = CHR ''-'' \<or> isDigit c then
            Some (JNum (takeWhile isNumberChar (c # cs)), dropWhile isNumberChar (c # cs))
          else if prefix ''true'' (c # cs) then Some (JBool True, drop 4 (c # cs))
          else if prefix ''false'' (c # cs) then Some (JBool False, drop 5 (c # cs))
          else if prefix ''null'' (c # cs) then Some (JNull, drop 4 (c # cs))
          else None)"
| "parseElements 0 s = None"
| "parseElements (Suc n) s =
     (case parseValue n s of
        None \<Rightarrow> None
      | Some (v, r) \<Rightarrow>
          (case skipWhitespace r of
             [] \<Rightarrow> None
           | c # cs \<Rightarrow>
               if c = CHR '','' then
                 map_option (\<lambda>(elements, r'). (v # elements, r')) (parseElements n cs)
               else if c = CHR '']'' then Some ([v], cs)
               else None))"
| "parseMembers 0 s = None"
| "parseMembers (Suc n) s =
     (case skipWhitespace s of
        [] \<Rightarrow> None
      | c # cs \<Rightarrow>
          if c = CHR 0x22 then
            (case parseStringChars cs of
               None \<Rightarrow> None
             | Some (key, r) \<Rightarrow>
                 (case skipWhitespace r of
                    [] \<Rightarrow> None
                  | d # ds \<Rightarrow>
                      if d = CHR '':'' then
                        (case parseValue n ds of
                           None \<Rightarrow> None
                         | Some (v, r') \<Rightarrow>
                             (case skipWhitespace r' of
                                [] \<Rightarrow> None
                              | e # es \<Rightarrow>
                                  if e = CHR '','' then
                                    map_option (\<lambda>(members, r''). ((key, v) # members, r''))
                                      (parseMembers n es)
                                  else if e = CHR ''}'' then Some ([(key, v)], es)
                                  else None))
                      else None))
          else None)"

definition buildObject :: "JsProperties \<Rightarrow> JsProperties" where
  "buildObject members = foldl (\<lambda>obj (key, v). setProperty obj key v) [] members"

fun getNodeValue :: "json \<Rightarrow> json" where
  "getNodeValue (JArr elements) = JArr (map getNodeValue elements)"
| "getNodeValue (JObj members) =
     JObj (buildObject (map (\<lambda>(key, v). (key, getNodeValue v)) members))"
| "getNodeValue v = v"

fun validNumbers :: "json \<Rightarrow> bool" where
  "validNumbers (JNum token) =
     (token \<noteq> [] \<and> list_all isNumberChar token \<and> (hd token = CHR ''-'' \<or> isDigit (hd token)))"
| "validNumbers (JArr elements) = (\<forall>v\<in>set elements. validNumbers v)"
| "validNumbers (JObj members) = (\<forall>(key, v)\<in>set members. validNumbers v)"
| "validNumbers v = True"

section \<open>Notions of the specification\<close>

text \<open>
  What one rule contributes to a traversal, in the words of the specification: nothing
  when it does not implement the entry point or returns \<^verbatim>\<open>null\<close>, one element for a
  single result, the elements in order for an array.
\<close>

fun flattenReturn :: "'v RuleResult \<Rightarrow> 'v LintResult list" where
  "flattenReturn ReturnNull = []"
| "flattenReturn (ReturnOne r) = [r]"
| "flattenReturn (ReturnArray rs) = rs"

fun flattenArray :: "'v LintResult list option \<Rightarrow> 'v LintResult list" where
  "flattenArray None = []"
| "flattenArray (Some rs) = rs"

text \<open>
  The outcome of a rule at one traversal call: \<open>None\<close> when the rule does not implement
  the entry point, else what the call returns or throws.
\<close>

definition signalOutcome ::
  "('t, 'c, 'v) ILinterRule \<Rightarrow> 't \<Rightarrow> 'v Node \<Rightarrow> (exception + 'v RuleResult) option" where
  "signalOutcome rule target node' =
     map_option (\<lambda>validate. validate target node') (validateSignal rule)"

definition commandOutcome ::
  "('t, 'c, 'v) ILinterRule \<Rightarrow> 'c \<Rightarrow> 'v Node \<Rightarrow> ('t \<times> 'v Node) list
    \<Rightarrow> (exception + 'v RuleResult) option" where
  "commandOutcome rule command commandNode signalsInCommand =
     map_option (\<lambda>validate. validate command commandNode signalsInCommand)
       (validateCommand rule)"

definition commandsOutcome ::
  "('t, 'c, 'v) ILinterRule \<Rightarrow> 'v Node \<Rightarrow> (exception + 'v LintResult list option) option" where
  "commandsOutcome rule commandsNode =
     map_option (\<lambda>validate. validate commandsNode) (validateCommands rule)"

definition documentOutcome ::
  "('t, 'c, 'v) ILinterRule \<Rightarrow> 'v Node \<Rightarrow> (exception + 'v LintResult list option) option" where
  "documentOutcome rule rootNode =
     map_option (\<lambda>validate. validate rootNode) (validateDocument rule)"

fun contribution ::
  "('r \<Rightarrow> 'v LintResult list) \<Rightarrow> (exception + 'r) option \<Rightarrow> 'v LintResult list" where
  "contribution flatten None = []"
| "contribution flatten (Some (Inl e)) = []"
| "contribution flatten (Some (Inr r)) = flatten r"

fun throws :: "(exception + 'r) option \<Rightarrow> bool" where
  "throws None = False"
| "throws (Some (Inl e)) = True"
| "throws (Some (Inr r)) = False"

text \<open>
  The canonical property order of a rewritten signal, in the words of the
  specification: \<^verbatim>\<open>id\<close>, \<^verbatim>\<open>path\<close>, \<^verbatim>\<open>fmt\<close>, \<^verbatim>\<open>name\<close>, each only if the signal has it,
  then \<^verbatim>\<open>suggestedMetric\<close>, then the remaining properties in their original order.
\<close>

definition knownFirst :: "string list" where
  "knownFirst = [''id'', ''path'', ''fmt'', ''name'']"

definition canonicalOrder :: "JsProperties \<Rightarrow> string \<Rightarrow> JsProperties" where
  "canonicalOrder signalObj metric =
     List.map_filter (\<lambda>key. map_option (Pair key) (map_of signalObj key)) knownFirst
     @ [(''suggestedMetric'', JStr metric)]
     @ filter (\<lambda>(key, v). key \<notin> set knownFirst \<and> key \<noteq> ''suggestedMetric'') signalObj"

text \<open>
  The property names of a signal that JavaScript treats specially when the rewritten
  object is built.
\<close>

definition plainKey :: "string \<Rightarrow> bool" where
  "plainKey key = (\<not> isArrayIndex key \<and> key \<noteq> ''__proto__'' \<and> key \<noteq> ''hasOwnProperty'')"

text \<open>
  Modelled from the spec: an edit is a replacement text with an offset and a length over
  the original buffer. Applying it replaces that span of the buffer by the text.
\<close>

definition applyEdit :: "string \<Rightarrow> TextEdit \<Rightarrow> string" where
  "applyEdit original edit =
     take (edit_offset edit) original @ newText edit
       @ drop (edit_offset edit + edit_length edit) original"

text \<open>
  Parsing a text again and looking at the node that starts at a given place: the value
  \<open>getNodeValue\<close> returns for it, and the text after the node.
\<close>

definition reparseAt :: "string \<Rightarrow> nat \<Rightarrow> (json \<times> string) option" where
  "reparseAt original position =
     map_option (\<lambda>(tree, rest). (getNodeValue tree, rest))
       (parseValue (length original) (drop position original))"

text \<open>
  The signal a front-end hands to a rule is the object \<^verbatim>\<open>getNodeValue\<close> returns for the
  signal's node (cli.ts, line 373), read at the type \<open>Signal\<close>. A property the object
  lacks is absent from the signal, and a string property is that string. For a property
  of another JSON type the field is left open: a statement about every signal that views
  an object covers whatever the rule reads there.
\<close>

fun fieldView :: "json option \<Rightarrow> string option \<Rightarrow> bool" where
  "fieldView None field = (field = None)"
| "fieldView (Some (JStr s)) field = (field = Some s)"
| "fieldView (Some v) field = True"

definition isSignalView :: "JsProperties \<Rightarrow> Signal \<Rightarrow> bool" where
  "isSignalView signalObj signal =
     (fieldView (map_of signalObj ''id'') (id' signal)
      \<and> fieldView (map_of signalObj ''name'') (name signal)
      \<and> fieldView (map_of signalObj ''suggestedMetric'') (suggestedMetric signal))"

text \<open>The object \<^verbatim>\<open>orderedSignal\<close> when the loop over the remaining keys starts.\<close>

definition orderedHead :: "JsProperties \<Rightarrow> string \<Rightarrow> JsObject" where
  "orderedHead signalObj metric =
     (let orderedSignal = emptyObject;
          orderedSignal = copyIfDefined signalObj ''id'' orderedSignal;
          orderedSignal = copyIfDefined signalObj ''path'' orderedSignal;
          orderedSignal = copyIfDefined signalObj ''fmt'' orderedSignal;
          orderedSignal = copyIfDefined signalObj ''name'' orderedSignal
      in orderedSignal\<lparr>ownProperties :=
            setProperty (ownProperties orderedSignal) ''suggestedMetric'' (JStr metric)\<rparr>)"

text \<open>
  The winning condition of a pattern, in the words of the specification: the id matches
  the pattern's id expression or the name matches its name expression, and the name does
  not match its exclusion. An expression a pattern does not have matches nothing.
\<close>

definition matchesPattern :: "RegExp option \<Rightarrow> string \<Rightarrow> bool" where
  "matchesPattern re s = (case re of None \<Rightarrow> False | Some test \<Rightarrow> test s)"

definition firstMatchCondition :: "MetricPattern \<Rightarrow> string \<Rightarrow> string \<Rightarrow> bool" where
  "firstMatchCondition pattern signalId signalName =
     ((matchesPattern (idPattern pattern) signalId
        \<or> matchesPattern (namePattern pattern) signalName)
      \<and> \<not> matchesPattern (excludeNamePattern pattern) signalName)"

text \<open>
  The result the specification describes for a pattern: the rule's id, the message and
  title that quote the pattern's \<^verbatim>\<open>suggestedMetric\<close>, and one edit that replaces the span
  of the signal's node by a given text.
\<close>

definition suggestionResult ::
  "JsProperties Node \<Rightarrow> MetricPattern \<Rightarrow> string \<Rightarrow> JsProperties LintResult" where
  \<open>suggestionResult node' pattern text =
     \<lparr>ruleId = ''suggested-metric-suggestion'',
      message = ''Consider adding suggestedMetric: "'' @ pattern_suggestedMetric pattern
        @ ''" ('' @ description pattern @ '')'',
      node = node',
      suggestion = Some
        \<lparr>title = ''Add suggestedMetric: "'' @ pattern_suggestedMetric pattern @ ''"'',
         edits = [\<lparr>newText = text, edit_offset = offset node', edit_length = length' node'\<rparr>]\<rparr>\<rparr>\<close>

text \<open>
  The suggestion of a pattern: the result above with the text
  \<open>createSignalWithSuggestedMetric\<close> renders for the pattern's \<^verbatim>\<open>suggestedMetric\<close>, or the
  exception rendering it throws.
\<close>

definition suggestionOf ::
  "Signal \<Rightarrow> JsProperties Node \<Rightarrow> MetricPattern
    \<Rightarrow> exception + JsProperties LintResult option" where
  "suggestionOf signal node' pattern =
     (case createSignalWithSuggestedMetric signal node' (pattern_suggestedMetric pattern) of
        Inl e \<Rightarrow> Inl e
      | Inr rendered \<Rightarrow> Inr (Some (suggestionResult node' pattern rendered)))"


text \<open>
  Notions for reading back what \<open>JSON_stringify\<close> writes. The number tokens of a value are
  well formed when each is a non-empty run of number characters that starts with a digit
  or a minus sign, as every token the parser returns is. A number is delimited in a text
  when no number character follows it. A value round-trips when the parser, given at
  least the length of its text as counter, reads the value back from its text and leaves
  what follows the text.
\<close>

fun numberEnds :: "json \<Rightarrow> string \<Rightarrow> bool" where
  "numberEnds (JNum token) [] = True"
| "numberEnds (JNum token) (c # cs) = (\<not> isNumberChar c)"
| "numberEnds v rest = True"

definition startsValue :: "char \<Rightarrow> bool" where
  "startsValue c = (c = CHR 0x22 \<or> c \<in> set ''{[-0123456789tfn'')"

definition roundTrips :: "json \<Rightarrow> bool" where
  "roundTrips v = (\<forall>n rest. numberEnds v rest \<longrightarrow> length (JSON_stringify v) \<le> n \<longrightarrow>
     parseValue n (JSON_stringify v @ rest) = Some (v, rest))"

definition memberText :: "string \<times> json \<Rightarrow> string" where
  "memberText = (\<lambda>(key, v). quoteJSONString key @ '':'' @ JSON_stringify v)"

definition builtFrom :: "JsProperties \<Rightarrow> string \<Rightarrow> JsObject \<Rightarrow> bool" where
  "builtFrom signalObj metric obj =
     (distinct (map fst (ownProperties obj))
      \<and> snd ` set (ownProperties obj) \<subseteq> insert (JStr metric) (snd ` set signalObj))"

section \<open>Example inputs\<close>

text \<open>
  Three rules over trivial targets and nodes: one returns a single result for a signal,
  one implements no entry point, one returns arrays that repeat a result of the first.
\<close>

definition exampleResult :: "string \<Rightarrow> unit LintResult" where
  "exampleResult rid =
     \<lparr>ruleId = rid, message = ''finding'',
      node = \<lparr>offset = 0, length' = 2, nodeValue = ()\<rparr>, suggestion = None\<rparr>"

definition exampleConfig :: "string \<Rightarrow> LinterRuleConfig" where
  "exampleConfig rid =
     \<lparr>config_id = rid, config_name = rid, config_description = [],
      severity = LintSeverity.Warning, enabled = True\<rparr>"

definition exampleRules :: "(unit, unit, unit) ILinterRule list" where
  "exampleRules =
     [\<lparr>getConfig = exampleConfig ''one'',
       validateSignal = Some (\<lambda>target node'. Inr (ReturnOne (exampleResult ''one''))),
       validateCommand = None, validateCommands = None,
       validateDocument = Some (\<lambda>rootNode. Inr None)\<rparr>,
      \<lparr>getConfig = exampleConfig ''none'',
       validateSignal = None, validateCommand = None, validateCommands = None,
       validateDocument = None\<rparr>,
      \<lparr>getConfig = exampleConfig ''many'',
       validateSignal = Some (\<lambda>target node'.
         Inr (ReturnArray [exampleResult ''many'', exampleResult ''one''])),
       validateCommand = Some (\<lambda>command commandNode signalsInCommand. Inr ReturnNull),
       validateCommands = Some (\<lambda>commandsNode. Inr (Some [exampleResult ''many''])),
       validateDocument = Some (\<lambda>rootNode.
         Inr (Some [exampleResult ''many'', exampleResult ''many'']))\<rparr>]"

definition exampleRegistry :: "(unit, unit, unit) RuleRegistry" where
  "exampleRegistry =
     \<lparr>getEnabledRules = exampleRules,
      getRuleById = (\<lambda>rid. find (\<lambda>rule. config_id (getConfig rule) = rid) exampleRules)\<rparr>"

definition exampleNode :: "unit Node" where
  "exampleNode = \<lparr>offset = 0, length' = 2, nodeValue = ()\<rparr>"

text \<open>
  A pattern table of two entries that both match an id containing \<^verbatim>\<open>RPM\<close>; only the
  first has an exclusion. The signals below stand in the document
  \<^verbatim>\<open>{"commands":[{"hdr":"7E0","cmd":{"22":"0C"},"signals":[ ... ]}]}\<close> at offset 55.
\<close>

definition examplePatterns :: "MetricPattern list" where
  "examplePatterns =
     [\<lparr>idPattern = Some (\<lambda>s. String_includes s ''RPM''),
       namePattern = Some (\<lambda>s. String_includes s ''RPM''),
       excludeNamePattern = Some (\<lambda>s. String_includes s ''Target''),
       pattern_suggestedMetric = ''rpm'', description = ''Engine speed''\<rparr>,
      \<lparr>idPattern = Some (\<lambda>s. String_includes s ''RPM''),
       namePattern = None,
       excludeNamePattern = None,
       pattern_suggestedMetric = ''targetRpm'', description = ''Commanded speed''\<rparr>]"

definition exampleRule :: SuggestedMetricSuggestionRule where
  "exampleRule = \<lparr>metricPatterns = examplePatterns\<rparr>"

definition engineRpmSignal :: Signal where
  "engineRpmSignal =
     \<lparr>id' = Some ''ENGINE_RPM'', name = Some ''Engine RPM'', suggestedMetric = None\<rparr>"

definition engineRpmNode :: "JsProperties Node" where
  "engineRpmNode =
     \<lparr>offset = 55, length' = 39,
      nodeValue = [(''id'', JStr ''ENGINE_RPM''), (''name'', JStr ''Engine RPM'')]\<rparr>"

definition targetRpmSignal :: Signal where
  "targetRpmSignal =
     \<lparr>id' = Some ''TARGET_RPM'', name = Some ''Target RPM'', suggestedMetric = None\<rparr>"

definition targetRpmNode :: "JsProperties Node" where
  "targetRpmNode =
     \<lparr>offset = 55, length' = 39,
      nodeValue = [(''id'', JStr ''TARGET_RPM''), (''name'', JStr ''Target RPM'')]\<rparr>"

definition x1Signal :: Signal where
  "x1Signal = \<lparr>id' = Some ''X1'', name = Some ''Engine RPM'', suggestedMetric = None\<rparr>"

definition x1Node :: "JsProperties Node" where
  "x1Node =
     \<lparr>offset = 55, length' = 44,
      nodeValue =
        [(''id'', JStr ''X1''), (''name'', JStr ''Engine RPM''), (''unit'', JStr ''rpm'')]\<rparr>"

text \<open>
  The signal \<^verbatim>\<open>{"id":"X1","name":"Engine RPM","0":1}\<close>: JavaScript enumerates the
  property \<^verbatim>\<open>0\<close> first.
\<close>

definition indexKeyNode :: "JsProperties Node" where
  "indexKeyNode =
     \<lparr>offset = 55, length' = 37,
      nodeValue = [(''0'', JNum ''1''), (''id'', JStr ''X1''), (''name'', JStr ''Engine RPM'')]\<rparr>"

text \<open>A signal whose \<^verbatim>\<open>suggestedMetric\<close> is the empty string.\<close>

definition emptyMetricSignal :: Signal where
  "emptyMetricSignal =
     \<lparr>id' = Some ''ENGINE_RPM'', name = Some ''Engine RPM'', suggestedMetric = Some []\<rparr>"

definition emptyMetricNode :: "JsProperties Node" where
  "emptyMetricNode =
     \<lparr>offset = 55, length' = 60,
      nodeValue = [(''id'', JStr ''ENGINE_RPM''), (''name'', JStr ''Engine RPM''),
        (''suggestedMetric'', JStr [])]\<rparr>"

text \<open>
  The signal \<^verbatim>\<open>{"id":"X1","hasOwnProperty":1,"name":"Engine RPM"}\<close>, one of whose
  properties has the name of the method the rule calls on the object it builds.
\<close>

definition shadowingNode :: "JsProperties Node" where
  "shadowingNode =
     \<lparr>offset = 55, length' = 50,
      nodeValue = [(''id'', JStr ''X1''), (''hasOwnProperty'', JNum ''1''),
        (''name'', JStr ''Engine RPM'')]\<rparr>"

text \<open>A document with one command whose only signal starts at offset 55.\<close>

definition exampleSource :: string where
  \<open>exampleSource =
     ''{"commands":[{"hdr":"7E0","cmd":{"22":"0C"},"signals":[{"id":"ENGINE_RPM","name":"Engine RPM"}]}]}''\<close>



definition overlappingResult :: "unit LintResult" where
  "overlappingResult =
     \<lparr>ruleId = ''command-check'', message = ''error: see the warning above'',
      node = \<lparr>offset = 0, length' = 2, nodeValue = ()\<rparr>, suggestion = None\<rparr>"

section \<open>Properties of the analysis engine\<close>

lemma lintSignal_loop_returns:
  assumes "\<forall>rule\<in>set rules. \<not> throws (signalOutcome rule target node')"
  shows "lintSignal_loop rules target node' results =
     Inr (results @ concat (map (\<lambda>rule. contribution flattenReturn (signalOutcome rule target node')) rules))"
  using assms
  by (induction rules arbitrary: results)
    (auto simp: signalOutcome_def split: option.splits sum.splits RuleResult.splits)

lemma lintCommand_loop_returns:
  assumes "\<forall>rule\<in>set rules. \<not> throws (commandOutcome rule command commandNode signalsInCommand)"
  shows "lintCommand_loop rules command commandNode signalsInCommand results =
     Inr (results @ concat (map (\<lambda>rule. contribution flattenReturn
        (commandOutcome rule command commandNode signalsInCommand)) rules))"
  using assms
  by (induction rules arbitrary: results)
    (auto simp: commandOutcome_def split: option.splits sum.splits RuleResult.splits)

lemma lintCommands_loop_returns:
  assumes "\<forall>rule\<in>set rules. \<not> throws (commandsOutcome rule commandsNode)"
  shows "lintCommands_loop rules commandsNode results =
     Inr (results @ concat (map (\<lambda>rule. contribution flattenArray
        (commandsOutcome rule commandsNode)) rules))"
  using assms
  by (induction rules arbitrary: results)
    (auto simp: commandsOutcome_def split: option.splits sum.splits)

lemma lintDocument_loop_returns:
  assumes "\<forall>rule\<in>set rules. \<not> throws (documentOutcome rule rootNode)"
  shows "lintDocument_loop rules rootNode results =
     Inr (results @ concat (map (\<lambda>rule. contribution flattenArray
        (documentOutcome rule rootNode)) rules))"
  using assms
  by (induction rules arbitrary: results)
    (auto simp: documentOutcome_def split: option.splits sum.splits)

text \<open>
  Claim C1. For each of \<open>lintSignal\<close>, \<open>lintCommand\<close>, \<open>lintCommands\<close> and
  \<open>lintDocument\<close> and every list of enabled rules: when no enabled rule throws at the
  call, the method returns the concatenation, in the order of the enabled rules, of what
  each rule contributes: nothing for a rule without the entry point (which is never an
  error) or for \<^verbatim>\<open>null\<close>, the one element of a single result, the elements of an array
  in order. Nothing is merged and nothing is removed.
\<close>

theorem lint_concatenates_rule_returns:
  fixes this :: "('t, 'c, 'v, 'z) BaseLinter_scheme"
  shows
  "((\<forall>rule\<in>set (getEnabledRules (ruleRegistry this)). \<not> throws (signalOutcome rule target node'))
     \<longrightarrow> lintSignal this target node' =
       Inr (concat (map (\<lambda>rule. contribution flattenReturn (signalOutcome rule target node'))
         (getEnabledRules (ruleRegistry this)))))
   \<and> ((\<forall>rule\<in>set (getEnabledRules (ruleRegistry this)).
         \<not> throws (commandOutcome rule command commandNode signalsInCommand))
     \<longrightarrow> lintCommand this command commandNode signalsInCommand =
       Inr (concat (map (\<lambda>rule. contribution flattenReturn
         (commandOutcome rule command commandNode signalsInCommand))
         (getEnabledRules (ruleRegistry this)))))
   \<and> ((\<forall>rule\<in>set (getEnabledRules (ruleRegistry this)). \<not> throws (commandsOutcome rule commandsNode))
     \<longrightarrow> lintCommands this commandsNode =
       Inr (concat (map (\<lambda>rule. contribution flattenArray (commandsOutcome rule commandsNode))
         (getEnabledRules (ruleRegistry this)))))
   \<and> ((\<forall>rule\<in>set (getEnabledRules (ruleRegistry this)). \<not> throws (documentOutcome rule rootNode))
     \<longrightarrow> lintDocument this rootNode =
       Inr (concat (map (\<lambda>rule. contribution flattenArray (documentOutcome rule rootNode))
         (getEnabledRules (ruleRegistry this)))))"
  by (simp add: lintSignal_def lintCommand_def lintCommands_def lintDocument_def
      lintSignal_loop_returns lintCommand_loop_returns lintCommands_loop_returns
      lintDocument_loop_returns)

theorem lint_concatenates_rule_returns_witness:
  "lintSignal (BaseLinter_new exampleRegistry) () exampleNode =
     Inr [exampleResult ''one'', exampleResult ''many'', exampleResult ''one'']
   \<and> lintCommand (BaseLinter_new exampleRegistry) () exampleNode [] = Inr []
   \<and> lintCommands (BaseLinter_new exampleRegistry) exampleNode = Inr [exampleResult ''many'']
   \<and> lintDocument (BaseLinter_new exampleRegistry) exampleNode =
       Inr [exampleResult ''many'', exampleResult ''many'']"
  using lint_concatenates_rule_returns [of "BaseLinter_new exampleRegistry" "()" exampleNode
      "()" exampleNode "[]" exampleNode exampleNode]
  by (simp add: BaseLinter_new_def exampleRegistry_def exampleRules_def signalOutcome_def
      commandOutcome_def commandsOutcome_def documentOutcome_def)

lemma CliSignalLinter_lintSignal_loop_eq:
  "CliSignalLinter_lintSignal_loop rules target node' results =
     lintSignal_loop rules target node' results"
  by (induction rules arbitrary: results)
    (simp_all split: option.splits sum.splits RuleResult.splits)

lemma CliSignalLinter_lintCommand_loop_eq:
  "CliSignalLinter_lintCommand_loop rules command commandNode signalsInCommand results =
     lintCommand_loop rules command commandNode signalsInCommand results"
  by (induction rules arbitrary: results)
    (simp_all split: option.splits sum.splits RuleResult.splits)

lemma CliSignalLinter_lintCommands_loop_eq:
  "CliSignalLinter_lintCommands_loop rules commandsNode results =
     lintCommands_loop rules commandsNode results"
  by (induction rules arbitrary: results) (simp_all split: option.splits sum.splits)

lemma CliSignalLinter_lintDocument_loop_eq:
  "CliSignalLinter_lintDocument_loop rules rootNode results =
     lintDocument_loop rules rootNode results"
  by (induction rules arbitrary: results) (simp_all split: option.splits sum.splits)

text \<open>
  Claim C10. For every registry and every input, each of the four methods of the
  standalone \<^verbatim>\<open>CliSignalLinter\<close> of \<^verbatim>\<open>linterCli.ts\<close> returns (or throws) exactly what the
  method of the same name of \<^verbatim>\<open>BaseLinter\<close> does; both constructors take the one
  registry instance of the process.
\<close>

theorem standalone_cli_linter_equals_base_linter:
  "CliSignalLinter_lintSignal (CliSignalLinter_new registry) target node' =
     lintSignal (BaseLinter_new registry) target node'
   \<and> CliSignalLinter_lintCommand (CliSignalLinter_new registry) command commandNode
       signalsInCommand =
     lintCommand (BaseLinter_new registry) command commandNode signalsInCommand
   \<and> CliSignalLinter_lintCommands (CliSignalLinter_new registry) commandsNode =
     lintCommands (BaseLinter_new registry) commandsNode
   \<and> CliSignalLinter_lintDocument (CliSignalLinter_new registry) rootNode =
     lintDocument (BaseLinter_new registry) rootNode"
  by (simp add: CliSignalLinter_lintSignal_def CliSignalLinter_lintCommand_def
      CliSignalLinter_lintCommands_def CliSignalLinter_lintDocument_def
      lintSignal_def lintCommand_def lintCommands_def lintDocument_def
      CliSignalLinter_new_def BaseLinter_new_def
      CliSignalLinter_lintSignal_loop_eq CliSignalLinter_lintCommand_loop_eq
      CliSignalLinter_lintCommands_loop_eq CliSignalLinter_lintDocument_loop_eq)

section \<open>Properties of the suggested-metric rule\<close>

subsection \<open>Storing properties\<close>

lemma knownFirst_plain:
  "\<not> isArrayIndex ''id''" "\<not> isArrayIndex ''path''" "\<not> isArrayIndex ''fmt''"
  "\<not> isArrayIndex ''name''" "\<not> isArrayIndex ''suggestedMetric''"
  by (simp_all add: isArrayIndex_def isDigit_def)

lemma setProperty_new_plain:
  "key \<notin> fst ` set props \<Longrightarrow> \<not> isArrayIndex key \<Longrightarrow> setProperty props key v = props @ [(key, v)]"
  by (simp add: setProperty_def)

lemma set_insertIndexProperty:
  "set (insertIndexProperty key v props) = insert (key, v) (set props)"
  by (induction props) (auto split: if_splits)

lemma map_of_insertIndexProperty:
  "key \<notin> fst ` set props \<Longrightarrow>
     map_of (insertIndexProperty key v props) k = (if k = key then Some v else map_of props k)"
  by (induction props) auto

lemma map_of_replace:
  "map_of (map (\<lambda>(k, w). if k = key then (k, v) else (k, w)) props) k' =
     (if k' = key then (if key \<in> fst ` set props then Some v else None) else map_of props k')"
  by (induction props) (force split: if_splits)+

lemma map_of_snoc:
  "key \<notin> fst ` set props \<Longrightarrow>
     map_of (props @ [(key, v)]) k = (if k = key then Some v else map_of props k)"
  by (induction props) auto

lemma map_of_setProperty:
  "map_of (setProperty props key v) k = (if k = key then Some v else map_of props k)"
  unfolding setProperty_def
  by (simp add: map_of_insertIndexProperty map_of_replace map_of_snoc del: map_of_append)

lemma keys_replace:
  "fst ` (\<lambda>(k, w). if k = key then (k, v) else (k, w)) ` set props = fst ` set props"
  by (force simp: image_iff split: if_splits)

lemma keys_setProperty:
  "fst ` set (setProperty props key v) = insert key (fst ` set props)"
  unfolding setProperty_def
  by (simp add: keys_replace set_insertIndexProperty insert_absorb)

subsection \<open>The rewritten signal\<close>

lemma createSignalWithSuggestedMetric_head:
  "createSignalWithSuggestedMetric signal node' metric =
     (case addRemainingProperties (nodeValue node') (orderedHead (nodeValue node') metric) of
        Inl e \<Rightarrow> Inl e
      | Inr orderedSignal \<Rightarrow> Inr (JSON_stringify (JObj (ownProperties orderedSignal))))"
  by (simp add: createSignalWithSuggestedMetric_def orderedHead_def Let_def)

lemma orderedHead_value:
  "orderedHead signalObj metric =
     \<lparr>ownProperties =
        List.map_filter (\<lambda>key. map_option (Pair key) (map_of signalObj key)) knownFirst
        @ [(''suggestedMetric'', JStr metric)],
      inheritsObjectPrototype = True\<rparr>"
  by (simp add: orderedHead_def copyIfDefined_def emptyObject_def setProperty_def
      knownFirst_plain knownFirst_def map_filter_simps split: option.splits)

lemma addRemainingProperties_plain:
  assumes "inheritsObjectPrototype obj"
    and "''hasOwnProperty'' \<notin> fst ` set (ownProperties obj)"
    and "distinct (map fst props)"
    and "list_all plainKey (map fst props)"
  shows "addRemainingProperties props obj =
     Inr (obj\<lparr>ownProperties := ownProperties obj
       @ filter (\<lambda>(key, v). key \<notin> fst ` set (ownProperties obj)) props\<rparr>)"
  using assms
proof (induction props arbitrary: obj)
  case Nil
  then show ?case by simp
next
  case (Cons p props)
  obtain key v where p: "p = (key, v)" by (cases p)
  from Cons.prems p have "plainKey key" by simp
  then have plain: "\<not> isArrayIndex key" "key \<noteq> ''__proto__''" "key \<noteq> ''hasOwnProperty''"
    by (simp_all add: plainKey_def)
  from Cons.prems p have fresh: "key \<notin> fst ` set props" and dist: "distinct (map fst props)"
    and rest: "list_all plainKey (map fst props)"
    by simp_all
  have call: "hasOwnProperty obj key = Inr (key \<in> fst ` set (ownProperties obj))"
    using Cons.prems(1,2) by (simp add: hasOwnProperty_def)
  show ?case
  proof (cases "key \<in> fst ` set (ownProperties obj)")
    case True
    then show ?thesis
      using Cons.IH [OF Cons.prems(1,2) dist rest] call p by simp
  next
    case False
    let ?obj = "obj\<lparr>ownProperties := ownProperties obj @ [(key, v)]\<rparr>"
    have assign: "assignProperty obj key v = ?obj"
      using False plain by (simp add: assignProperty_def setProperty_new_plain)
    have same: "filter (\<lambda>(k, w). k \<notin> fst ` set (ownProperties ?obj)) props =
        filter (\<lambda>(k, w). k \<notin> fst ` set (ownProperties obj)) props"
      using fresh by (intro filter_cong) (auto simp: image_iff)
    have "addRemainingProperties props ?obj =
        Inr (?obj\<lparr>ownProperties := ownProperties ?obj
          @ filter (\<lambda>(k, w). k \<notin> fst ` set (ownProperties ?obj)) props\<rparr>)"
      using Cons.prems(1,2) plain by (intro Cons.IH [OF _ _ dist rest]) auto
    then show ?thesis
      using call False assign same p by simp
  qed
qed

lemma keys_present:
  "fst ` set (List.map_filter (\<lambda>key. map_option (Pair key) (map_of props key)) keys) =
     set keys \<inter> fst ` set props"
proof (induction keys)
  case Nil
  then show ?case by (simp add: map_filter_simps)
next
  case (Cons key keys)
  show ?case
  proof (cases "map_of props key")
    case None
    then have "key \<notin> fst ` set props" by (simp add: map_of_eq_None_iff)
    with None Cons show ?thesis by (auto simp: map_filter_simps)
  next
    case (Some v)
    then have "key \<in> fst ` set props" by (metis map_of_eq_None_iff option.distinct(1))
    with Some Cons show ?thesis by (auto simp: map_filter_simps)
  qed
qed

lemma createSignalWithSuggestedMetric_canonical:
  assumes "distinct (map fst (nodeValue node'))"
    and "list_all plainKey (map fst (nodeValue node'))"
  shows "createSignalWithSuggestedMetric signal node' metric =
     Inr (JSON_stringify (JObj (canonicalOrder (nodeValue node') metric)))"
proof -
  let ?obj = "nodeValue node'"
  let ?head = "List.map_filter (\<lambda>key. map_option (Pair key) (map_of ?obj key)) knownFirst"
  have keys: "fst ` set ?head = set knownFirst \<inter> fst ` set ?obj"
    by (rule keys_present)
  have hop: "''hasOwnProperty'' \<notin> fst ` set (ownProperties (orderedHead ?obj metric))"
  proof -
    have "''hasOwnProperty'' \<notin> set knownFirst" by (simp add: knownFirst_def)
    then show ?thesis by (simp add: orderedHead_value keys)
  qed
  have same: "filter (\<lambda>(key, v). key \<notin> fst ` set (ownProperties (orderedHead ?obj metric))) ?obj =
      filter (\<lambda>(key, v). key \<notin> set knownFirst \<and> key \<noteq> ''suggestedMetric'') ?obj"
    by (intro filter_cong) (auto simp: orderedHead_value keys image_iff)
  show ?thesis
    using addRemainingProperties_plain [OF _ hop assms] same
    by (simp add: createSignalWithSuggestedMetric_head canonicalOrder_def orderedHead_value)
qed

lemma addRemainingProperties_keeps:
  assumes "addRemainingProperties props obj = Inr obj'"
    and "k \<in> fst ` set (ownProperties obj)"
  shows "map_of (ownProperties obj') k = map_of (ownProperties obj) k"
  using assms
proof (induction props arbitrary: obj)
  case Nil
  then show ?case by simp
next
  case (Cons p props)
  obtain key v where p: "p = (key, v)" by (cases p)
  show ?case
  proof (cases "hasOwnProperty obj key")
    case (Inl e)
    with Cons.prems p show ?thesis by simp
  next
    case (Inr present)
    show ?thesis
    proof (cases present)
      case True
      with Inr Cons p show ?thesis by simp
    next
      case False
      with Inr have fresh: "key \<notin> fst ` set (ownProperties obj)"
        by (simp add: hasOwnProperty_def split: if_splits)
      with Cons.prems(2) have neq: "k \<noteq> key" by auto
      let ?obj = "assignProperty obj key v"
      have step: "addRemainingProperties props ?obj = Inr obj'"
        using Cons.prems(1) p Inr False by simp
      have same: "map_of (ownProperties ?obj) k = map_of (ownProperties obj) k"
        using neq by (simp add: assignProperty_def map_of_setProperty split: json.splits)
      have still: "k \<in> fst ` set (ownProperties ?obj)"
        using Cons.prems(2) by (simp add: assignProperty_def keys_setProperty split: json.splits)
      from Cons.IH [OF step still] same show ?thesis by simp
    qed
  qed
qed

subsection \<open>The loop over the patterns\<close>

lemma matchResult_suggestionResult:
  "matchResult signal node' pattern =
     (case createSignalWithSuggestedMetric signal node' (pattern_suggestedMetric pattern) of
        Inl e \<Rightarrow> Inl e
      | Inr text \<Rightarrow> Inr (suggestionResult node' pattern text))"
  by (simp add: matchResult_def suggestionResult_def SuggestedMetricSuggestionRule_getConfig_def
      split: sum.splits)

lemma suggestionOf_plain:
  assumes "distinct (map fst (nodeValue node'))"
    and "list_all plainKey (map fst (nodeValue node'))"
  shows "suggestionOf signal node' pattern =
     Inr (Some (suggestionResult node' pattern
       (JSON_stringify (JObj (canonicalOrder (nodeValue node')
          (pattern_suggestedMetric pattern))))))"
  using createSignalWithSuggestedMetric_canonical [OF assms]
  by (simp add: suggestionOf_def)

lemma patternApplies_firstMatchCondition:
  "patternApplies pattern signalId signalName = firstMatchCondition pattern signalId signalName"
  by (simp add: patternApplies_def firstMatchCondition_def matchesPattern_def)

lemma checkPatterns_find:
  "checkPatterns patterns signal signalId signalName node' =
     (case find (\<lambda>pattern. firstMatchCondition pattern signalId signalName) patterns of
        None \<Rightarrow> Inr None
      | Some pattern \<Rightarrow> suggestionOf signal node' pattern)"
  by (induction patterns)
    (simp_all add: patternApplies_firstMatchCondition suggestionOf_def
      matchResult_suggestionResult split: sum.splits)

lemma validateSignal_find:
  assumes "id' signal = Some signalId" and "signalId \<noteq> []"
    and "name signal = Some signalName" and "signalName \<noteq> []"
    and "\<not> truthy (suggestedMetric signal)"
  shows "SuggestedMetricSuggestionRule_validateSignal this signal node' =
     (case find (\<lambda>pattern. firstMatchCondition pattern signalId signalName)
        (metricPatterns this) of
        None \<Rightarrow> Inr None
      | Some pattern \<Rightarrow> suggestionOf signal node' pattern)"
  using assms by (simp add: SuggestedMetricSuggestionRule_validateSignal_def checkPatterns_find)

lemma checkPatterns_result:
  assumes "checkPatterns patterns signal signalId signalName node' = Inr (Some result)"
  shows "\<exists>pattern\<in>set patterns. matchResult signal node' pattern = Inr result"
  using assms
  by (induction patterns) (auto split: if_splits sum.splits)

lemma validateSignal_result:
  assumes "SuggestedMetricSuggestionRule_validateSignal this signal node' = Inr (Some result)"
  shows "\<exists>pattern\<in>set (metricPatterns this). matchResult signal node' pattern = Inr result"
  using assms
  by (auto simp: SuggestedMetricSuggestionRule_validateSignal_def
      split: if_splits option.splits dest: checkPatterns_result)

subsection \<open>Reading back what \<open>JSON_stringify\<close> writes\<close>

lemma hexValue_hexDigit: "k < 16 \<Longrightarrow> hexValue (hexDigit k) = Some k"
  apply (simp add: numeral_eq_Suc less_Suc_eq)
  apply (elim disjE)
  apply (simp_all add: hexValue_def hexDigit_def isDigit_def)
  done

lemma unicodeEscape_control:
  assumes "(of_char c :: nat) < 32"
  shows "unicodeEscape [CHR ''0'', CHR ''0'', hexDigit ((of_char c :: nat) div 16),
      hexDigit ((of_char c :: nat) mod 16)] = Some c"
proof -
  have "hexValue (CHR ''0'') = Some 0"
    by (simp add: hexValue_def isDigit_def)
  moreover have "hexValue (hexDigit ((of_char c :: nat) div 16)) = Some ((of_char c :: nat) div 16)"
    using assms by (intro hexValue_hexDigit) simp
  moreover have "hexValue (hexDigit ((of_char c :: nat) mod 16)) = Some ((of_char c :: nat) mod 16)"
    by (intro hexValue_hexDigit) simp
  ultimately show ?thesis
    by (simp add: unicodeEscape_def)
qed

lemma parseStringChars_quoteChar:
  "parseStringChars (quoteChar c @ rest) =
     map_option (\<lambda>(s, r). (c # s, r)) (parseStringChars rest)"
proof -
  consider (bs) "c = CHR 0x08" | (tab) "c = CHR 0x09" | (nl) "c = CHR 0x0A" | (ff) "c = CHR 0x0C"
    | (cr) "c = CHR 0x0D" | (quote) "c = CHR 0x22" | (backslash) "c = CHR 0x5C"
    | (control) "c \<notin> set [CHR 0x08, CHR 0x09, CHR 0x0A, CHR 0x0C, CHR 0x0D, CHR 0x22, CHR 0x5C]"
        "(of_char c :: nat) < 32"
    | (plain) "c \<notin> set [CHR 0x08, CHR 0x09, CHR 0x0A, CHR 0x0C, CHR 0x0D, CHR 0x22, CHR 0x5C]"
        "\<not> (of_char c :: nat) < 32"
    by auto
  then show ?thesis
  proof cases
    case control
    then show ?thesis
      using unicodeEscape_control [of c]
      by (simp add: quoteChar_def)
  next
    case plain
    then show ?thesis
      by (simp add: quoteChar_def)
  qed (simp_all add: quoteChar_def unescape_def)
qed

lemma parseStringChars_quoted:
  "parseStringChars (concat (map quoteChar s) @ CHR 0x22 # rest) = Some (s, rest)"
  by (induction s) (simp_all add: parseStringChars_quoteChar)

lemma stringify_start:
  assumes "validNumbers v"
  shows "\<exists>c cs. JSON_stringify v = c # cs \<and> startsValue c"
proof (cases v)
  case (JNum token)
  with assms obtain c cs where "token = c # cs" and "c = CHR ''-'' \<or> isDigit c"
    by (cases token) auto
  with JNum show ?thesis
    by (auto simp: startsValue_def isDigit_def)
qed (auto simp: startsValue_def quoteJSONString_def)

lemma startsValue_skip:
  "startsValue c \<Longrightarrow> skipWhitespace (c # cs) = c # cs"
  by (auto simp: startsValue_def isWhitespace_def)

lemma takeWhile_number:
  assumes "list_all isNumberChar token" and "numberEnds (JNum token) rest"
  shows "takeWhile isNumberChar (token @ rest) = token"
    and "dropWhile isNumberChar (token @ rest) = rest"
proof -
  from assms(1) have all: "\<forall>c\<in>set token. isNumberChar c"
    by (simp add: list_all_iff)
  from assms(2) have "takeWhile isNumberChar rest = []" and "dropWhile isNumberChar rest = rest"
    by (cases rest; simp)+
  with all show "takeWhile isNumberChar (token @ rest) = token"
    and "dropWhile isNumberChar (token @ rest) = rest"
    by (simp_all add: takeWhile_append2 dropWhile_append2)
qed

lemma roundTrips_atom:
  "roundTrips JNull" "roundTrips (JBool b)"
  by (auto simp: roundTrips_def isWhitespace_def isDigit_def elim!: le_SucE
      dest!: Suc_le_D)

lemma roundTrips_number:
  assumes "validNumbers (JNum token)"
  shows "roundTrips (JNum token)"
  unfolding roundTrips_def
proof (intro allI impI)
  fix n rest
  assume ends: "numberEnds (JNum token) rest" and fuel: "length (JSON_stringify (JNum token)) \<le> n"
  from assms obtain c cs where token: "token = c # cs" and first: "c = CHR ''-'' \<or> isDigit c"
    and all: "list_all isNumberChar token"
    by (cases token) auto
  from fuel token obtain m where n: "n = Suc m"
    by (cases n) auto
  from first have skip: "skipWhitespace (c # cs @ rest) = c # cs @ rest"
    by (auto simp: isWhitespace_def isDigit_def)
  from first have other: "c \<noteq> CHR ''{''" "c \<noteq> CHR ''[''" "c \<noteq> CHR 0x22"
    by (auto simp: isDigit_def)
  from takeWhile_number [OF all ends] token
  have "takeWhile isNumberChar (c # cs @ rest) = c # cs"
    and "dropWhile isNumberChar (c # cs @ rest) = rest"
    by simp_all
  with skip other first show "parseValue n (JSON_stringify (JNum token) @ rest) = Some (JNum token, rest)"
    by (simp add: n token del: takeWhile.simps dropWhile.simps)
qed

lemma roundTrips_string: "roundTrips (JStr s)"
  unfolding roundTrips_def
proof (intro allI impI)
  fix n rest
  assume "length (JSON_stringify (JStr s)) \<le> n"
  then obtain m where "n = Suc m"
    by (cases n) (auto simp: quoteJSONString_def)
  then show "parseValue n (JSON_stringify (JStr s) @ rest) = Some (JStr s, rest)"
    by (simp add: quoteJSONString_def isWhitespace_def parseStringChars_quoted)
qed

lemma roundTrips_before:
  assumes "roundTrips v" and "\<not> isNumberChar c" and "length (JSON_stringify v) \<le> n"
  shows "parseValue n (JSON_stringify v @ c # rest) = Some (v, c # rest)"
proof -
  from assms(2) have "numberEnds v (c # rest)"
    by (cases v) simp_all
  with assms(1,3) show ?thesis
    by (simp add: roundTrips_def)
qed

lemma parseElements_joined:
  assumes "elements \<noteq> []"
    and "\<forall>v\<in>set elements. validNumbers v \<and> roundTrips v"
    and "length (joinWith '','' (map JSON_stringify elements)) < n"
  shows "parseElements n (joinWith '','' (map JSON_stringify elements) @ CHR '']'' # rest) =
     Some (elements, rest)"
  using assms
proof (induction elements arbitrary: n)
  case Nil
  then show ?case by simp
next
  case (Cons v elements)
  from Cons.prems(3) obtain m where n: "n = Suc m"
    by (cases n) auto
  from Cons.prems(2) have valid: "validNumbers v" and trips: "roundTrips v"
    by simp_all
  from stringify_start [OF valid] have nonempty: "0 < length (JSON_stringify v)"
    by auto
  show ?case
  proof (cases elements)
    case Nil
    with Cons.prems(3) n have "length (JSON_stringify v) \<le> m"
      by simp
    with trips have "parseValue m (JSON_stringify v @ CHR '']'' # rest) = Some (v, CHR '']'' # rest)"
      by (intro roundTrips_before) (simp_all add: isNumberChar_def)
    with Nil show ?thesis
      by (simp add: n isWhitespace_def)
  next
    case (Cons w more)
    let ?tail = "joinWith '','' (map JSON_stringify elements)"
    from Cons have joined: "joinWith '','' (JSON_stringify v # map JSON_stringify elements) =
        JSON_stringify v @ CHR '','' # ?tail"
      by simp
    with Cons.prems(3) n have fuel: "length (JSON_stringify v) \<le> m" and rest_fuel: "length ?tail < m"
      using nonempty by simp_all
    from trips fuel
    have "parseValue m (JSON_stringify v @ CHR '','' # ?tail @ CHR '']'' # rest) =
        Some (v, CHR '','' # ?tail @ CHR '']'' # rest)"
      by (intro roundTrips_before) (simp_all add: isNumberChar_def)
    moreover have "parseElements m (?tail @ CHR '']'' # rest) = Some (elements, rest)"
      using Cons.prems(2) rest_fuel Cons by (intro Cons.IH) simp_all
    ultimately show ?thesis
      by (simp add: n joined isWhitespace_def del: joinWith.simps)
  qed
qed

lemma parseMembers_joined:
  assumes "members \<noteq> []"
    and "\<forall>member\<in>set members. validNumbers (snd member) \<and> roundTrips (snd member)"
    and "length (joinWith '','' (map memberText members)) < n"
  shows "parseMembers n (joinWith '','' (map memberText members) @ CHR ''}'' # rest) =
     Some (members, rest)"
  using assms
proof (induction members arbitrary: n)
  case Nil
  then show ?case by simp
next
  case (Cons member members)
  obtain key v where member: "member = (key, v)"
    by (cases member)
  from Cons.prems(3) obtain m where n: "n = Suc m"
    by (cases n) auto
  from Cons.prems(2) member have trips: "roundTrips v"
    by simp
  have quoted: "memberText (key, v) @ more =
      CHR 0x22 # concat (map quoteChar key) @ CHR 0x22 # CHR '':'' # JSON_stringify v @ more" for more
    by (simp add: memberText_def quoteJSONString_def)
  have size: "length (JSON_stringify v) + 3 \<le> length (memberText (key, v))"
    by (simp add: memberText_def quoteJSONString_def)
  show ?case
  proof (cases members)
    case Nil
    with Cons.prems(3) n member size have "length (JSON_stringify v) \<le> m"
      by simp
    with trips have "parseValue m (JSON_stringify v @ CHR ''}'' # rest) = Some (v, CHR ''}'' # rest)"
      by (intro roundTrips_before) (simp_all add: isNumberChar_def)
    with Nil member show ?thesis
      by (simp add: n quoted isWhitespace_def parseStringChars_quoted)
  next
    case (Cons second more)
    let ?tail = "joinWith '','' (map memberText members)"
    from Cons member have joined: "joinWith '','' (memberText (key, v) # map memberText members) =
        memberText (key, v) @ CHR '','' # ?tail"
      by simp
    with Cons.prems(3) n member size have fuel: "length (JSON_stringify v) \<le> m"
      and rest_fuel: "length ?tail < m"
      by simp_all
    from trips fuel
    have "parseValue m (JSON_stringify v @ CHR '','' # ?tail @ CHR ''}'' # rest) =
        Some (v, CHR '','' # ?tail @ CHR ''}'' # rest)"
      by (intro roundTrips_before) (simp_all add: isNumberChar_def)
    moreover have "parseMembers m (?tail @ CHR ''}'' # rest) = Some (members, rest)"
      using Cons.prems(2) rest_fuel Cons by (intro Cons.IH) simp_all
    ultimately show ?thesis
      using member
      by (simp add: n joined quoted isWhitespace_def parseStringChars_quoted
          del: joinWith.simps)
  qed
qed

lemma joined_values_start:
  assumes "elements \<noteq> []" and "\<forall>v\<in>set elements. validNumbers v"
  shows "\<exists>c cs. joinWith '','' (map JSON_stringify elements) = c # cs \<and> startsValue c"
proof -
  from assms obtain v more where elements: "elements = v # more" and "validNumbers v"
    by (cases elements) auto
  from stringify_start [OF this(2)] obtain c cs
    where "JSON_stringify v = c # cs" and "startsValue c"
    by blast
  with elements show ?thesis
    by (cases more) auto
qed

lemma joined_members_start:
  assumes "members \<noteq> []"
  shows "\<exists>cs. joinWith '','' (map memberText members) = CHR 0x22 # cs"
proof -
  from assms obtain member more where "members = member # more"
    by (cases members) auto
  then show ?thesis
    by (cases more; cases member) (auto simp: memberText_def quoteJSONString_def)
qed

lemma parseValue_stringify:
  "validNumbers v \<Longrightarrow> roundTrips v"
proof (induction v)
  case JNull
  show ?case by (rule roundTrips_atom)
next
  case (JBool b)
  show ?case by (rule roundTrips_atom)
next
  case (JNum token)
  then show ?case by (rule roundTrips_number)
next
  case (JStr s)
  show ?case by (rule roundTrips_string)
next
  case (JArr elements)
  then have each: "\<forall>v\<in>set elements. validNumbers v \<and> roundTrips v"
    by auto
  show ?case
    unfolding roundTrips_def
  proof (intro allI impI)
    fix n rest
    assume fuel: "length (JSON_stringify (JArr elements)) \<le> n"
    then obtain m where n: "n = Suc m"
      by (cases n) auto
    show "parseValue n (JSON_stringify (JArr elements) @ rest) = Some (JArr elements, rest)"
    proof (cases "elements = []")
      case True
      then show ?thesis
        by (simp add: n isWhitespace_def)
    next
      case False
      with each joined_values_start [of elements] obtain c cs
        where start: "joinWith '','' (map JSON_stringify elements) = c # cs" and "startsValue c"
        by auto
      then have skip: "skipWhitespace (c # cs @ CHR '']'' # rest) = c # cs @ CHR '']'' # rest"
        and other: "c \<noteq> CHR '']''"
        by (auto simp: startsValue_def isWhitespace_def)
      from fuel n have "length (joinWith '','' (map JSON_stringify elements)) < m"
        by simp
      from parseElements_joined [OF False each this, of rest] start
      have "parseElements m (c # cs @ CHR '']'' # rest) = Some (elements, rest)"
        by simp
      with skip other start show ?thesis
        by (simp add: n isWhitespace_def)
    qed
  qed
next
  case (JObj members)
  then have each: "\<forall>member\<in>set members. validNumbers (snd member) \<and> roundTrips (snd member)"
    by (auto simp: snds.simps)
  have stringify: "JSON_stringify (JObj members) =
      CHR ''{'' # joinWith '','' (map memberText members) @ ''}''"
    by (simp add: memberText_def)
  show ?case
    unfolding roundTrips_def
  proof (intro allI impI)
    fix n rest
    assume fuel: "length (JSON_stringify (JObj members)) \<le> n"
    then obtain m where n: "n = Suc m"
      by (cases n) auto
    show "parseValue n (JSON_stringify (JObj members) @ rest) = Some (JObj members, rest)"
    proof (cases "members = []")
      case True
      then show ?thesis
        by (simp add: n isWhitespace_def)
    next
      case False
      with joined_members_start [of members] obtain cs
        where start: "joinWith '','' (map memberText members) = CHR 0x22 # cs"
        by auto
      from fuel n have "length (joinWith '','' (map memberText members)) < m"
        unfolding stringify by simp
      from parseMembers_joined [OF False each this, of rest] start
      have "parseMembers m (CHR 0x22 # cs @ CHR ''}'' # rest) = Some (members, rest)"
        by simp
      with start show ?thesis
        by (simp add: n stringify isWhitespace_def del: JSON_stringify.simps)
    qed
  qed
qed

lemma distinct_insertIndexProperty:
  "key \<notin> fst ` set props \<Longrightarrow> distinct (map fst props) \<Longrightarrow>
     distinct (map fst (insertIndexProperty key v props))"
  by (induction props) (auto simp: set_insertIndexProperty)

lemma map_fst_replace:
  "map fst (map (\<lambda>(k, w). if k = key then (k, v) else (k, w)) props) = map fst props"
  by (induction props) auto

lemma distinct_setProperty:
  "distinct (map fst props) \<Longrightarrow> distinct (map fst (setProperty props key v))"
  unfolding setProperty_def
  by (simp add: distinct_insertIndexProperty map_fst_replace del: map_map)

lemma values_replace:
  "snd ` set (map (\<lambda>(k, w). if k = key then (k, v) else (k, w)) props) \<subseteq> insert v (snd ` set props)"
  by (force split: if_splits)

lemma values_setProperty:
  "snd ` set (setProperty props key v) \<subseteq> insert v (snd ` set props)"
  unfolding setProperty_def
  using values_replace [of key v props]
  by (auto simp: set_insertIndexProperty simp del: set_map)

lemma builtFrom_set:
  assumes "builtFrom signalObj metric obj" and "v = JStr metric \<or> v \<in> snd ` set signalObj"
  shows "builtFrom signalObj metric (obj\<lparr>ownProperties := setProperty (ownProperties obj) key v\<rparr>)"
  using assms values_setProperty [of "ownProperties obj" key v]
  by (auto simp: builtFrom_def distinct_setProperty)

lemma builtFrom_copy:
  assumes "builtFrom signalObj metric obj"
  shows "builtFrom signalObj metric (copyIfDefined signalObj key obj)"
proof (cases "map_of signalObj key")
  case None
  with assms show ?thesis by (simp add: copyIfDefined_def)
next
  case (Some v)
  then have "v \<in> snd ` set signalObj"
    by (force dest: map_of_SomeD)
  with Some builtFrom_set [OF assms, of v key] show ?thesis
    by (simp add: copyIfDefined_def)
qed

lemma builtFrom_head: "builtFrom signalObj metric (orderedHead signalObj metric)"
proof -
  have "builtFrom signalObj metric emptyObject"
    by (simp add: builtFrom_def emptyObject_def)
  then show ?thesis
    unfolding orderedHead_def Let_def
    by (intro builtFrom_set builtFrom_copy) simp_all
qed

lemma builtFrom_assign:
  assumes "builtFrom signalObj metric obj" and "v \<in> snd ` set signalObj"
  shows "builtFrom signalObj metric (assignProperty obj key v)"
  using assms builtFrom_set [OF assms(1), of v key]
  by (auto simp: assignProperty_def builtFrom_def split: json.splits)

lemma builtFrom_loop:
  assumes "addRemainingProperties props obj = Inr obj'"
    and "builtFrom signalObj metric obj"
    and "set props \<subseteq> set signalObj"
  shows "builtFrom signalObj metric obj'"
  using assms
proof (induction props arbitrary: obj)
  case Nil
  then show ?case by simp
next
  case (Cons p props)
  obtain key v where p: "p = (key, v)" by (cases p)
  with Cons.prems(3) have v: "v \<in> snd ` set signalObj"
    by force
  from Cons.prems(3) have rest: "set props \<subseteq> set signalObj"
    by simp
  show ?case
  proof (cases "hasOwnProperty obj key")
    case (Inl e)
    with Cons.prems p show ?thesis by simp
  next
    case (Inr present)
    show ?thesis
    proof (cases present)
      case True
      with Inr Cons.prems(1) p have "addRemainingProperties props obj = Inr obj'"
        by simp
      from Cons.IH [OF this Cons.prems(2) rest] show ?thesis .
    next
      case False
      with Inr Cons.prems(1) p
      have "addRemainingProperties props (assignProperty obj key v) = Inr obj'"
        by simp
      from Cons.IH [OF this builtFrom_assign [OF Cons.prems(2) v] rest] show ?thesis .
    qed
  qed
qed

lemma createSignalWithSuggestedMetric_object:
  assumes "createSignalWithSuggestedMetric signal node' metric = Inr rendered"
  shows "\<exists>rewritten. rendered = JSON_stringify (JObj rewritten)
     \<and> (''suggestedMetric'', JStr metric) \<in> set rewritten
     \<and> distinct (map fst rewritten)
     \<and> snd ` set rewritten \<subseteq> insert (JStr metric) (snd ` set (nodeValue node'))"
proof -
  let ?head = "orderedHead (nodeValue node') metric"
  from assms obtain obj where loop: "addRemainingProperties (nodeValue node') ?head = Inr obj"
    and rendered: "rendered = JSON_stringify (JObj (ownProperties obj))"
    by (auto simp: createSignalWithSuggestedMetric_head split: sum.splits)
  have head: "map_of (ownProperties ?head) ''suggestedMetric'' = Some (JStr metric)"
    by (simp add: orderedHead_def Let_def map_of_setProperty)
  then have "''suggestedMetric'' \<in> fst ` set (ownProperties ?head)"
    by (metis map_of_eq_None_iff option.distinct(1))
  from addRemainingProperties_keeps [OF loop this] head
  have "map_of (ownProperties obj) ''suggestedMetric'' = Some (JStr metric)"
    by simp
  then have member: "(''suggestedMetric'', JStr metric) \<in> set (ownProperties obj)"
    by (rule map_of_SomeD)
  from builtFrom_loop [OF loop builtFrom_head] have "builtFrom (nodeValue node') metric obj"
    by simp
  with member rendered show ?thesis
    by (auto simp: builtFrom_def)
qed

lemma map_of_buildObject_step:
  "map_of (foldl (\<lambda>obj (key, v). setProperty obj key v) acc members) k =
     (case map_of (rev members) k of Some v \<Rightarrow> Some v | None \<Rightarrow> map_of acc k)"
proof (induction members arbitrary: acc)
  case Nil
  then show ?case by simp
next
  case (Cons member members)
  obtain key v where "member = (key, v)" by (cases member)
  with Cons [of "setProperty acc key v"] show ?case
    by (auto simp: map_of_setProperty map_add_def split: option.splits)
qed

lemma map_of_buildObject:
  assumes "distinct (map fst members)" and "(key, v) \<in> set members"
  shows "map_of (buildObject members) key = Some v"
proof -
  from assms have "map_of (rev members) key = Some v"
    by (intro map_of_is_SomeI) (simp_all add: rev_map [symmetric])
  then show ?thesis
    by (simp add: buildObject_def map_of_buildObject_step)
qed

subsection \<open>The claims about the rule\<close>

text \<open>
  Claim C2 does not hold of the code for every signal. The signal
  \<^verbatim>\<open>{"id":"X1","hasOwnProperty":1,"name":"Engine RPM"}\<close> has a non-empty id, a non-empty
  name and no \<^verbatim>\<open>suggestedMetric\<close>, and the first pattern of the table satisfies the
  condition of the claim for it; \<open>validateSignal\<close> throws a \<^verbatim>\<open>TypeError\<close> where the claim
  has it emit that pattern's suggestion. The loop over the remaining keys (line 92) copies
  the property \<^verbatim>\<open>hasOwnProperty\<close> to \<^verbatim>\<open>orderedSignal\<close>, and the call
  \<^verbatim>\<open>orderedSignal.hasOwnProperty(key)\<close> for the next key (line 93) finds the number 1 in
  the place of the method.
\<close>

theorem first_match_throws_for_hasOwnProperty_key:
  \<open>JSON_stringify (JObj (nodeValue shadowingNode)) =
       ''{"id":"X1","hasOwnProperty":1,"name":"Engine RPM"}''
   \<and> length' shadowingNode = length (JSON_stringify (JObj (nodeValue shadowingNode)))
   \<and> id' x1Signal = Some ''X1'' \<and> name x1Signal = Some ''Engine RPM''
   \<and> suggestedMetric x1Signal = None
   \<and> firstMatchCondition (hd (metricPatterns exampleRule)) ''X1'' ''Engine RPM''
   \<and> SuggestedMetricSuggestionRule_validateSignal exampleRule x1Signal shadowingNode =
       Inl (JsTypeError ''hasOwnProperty is not a function'')\<close>
  by code_simp

theorem first_match_throws_for_hasOwnProperty_key_witness:
  "\<forall>rendered. SuggestedMetricSuggestionRule_validateSignal exampleRule x1Signal shadowingNode \<noteq>
     Inr (Some (suggestionResult shadowingNode (hd (metricPatterns exampleRule)) rendered))"
  using first_match_throws_for_hasOwnProperty_key by simp

text \<open>
  What does hold of the first match. For every signal with a non-empty id, a non-empty
  name and no \<^verbatim>\<open>suggestedMetric\<close>, \<open>validateSignal\<close> returns what building the suggestion
  gives for the first pattern of the table, in table order, such that the id matches its
  id expression or the name matches its name expression, and the name does not match its
  exclusion: the result that carries that pattern's \<^verbatim>\<open>suggestedMetric\<close>, or the exception
  that rendering the replacement text throws. It returns \<^verbatim>\<open>null\<close> when there is no such
  pattern. In particular, when an earlier pattern A and a later pattern B both match the
  id, A is not excluded and no pattern before A wins, the outcome is A's; and a pattern
  whose exclusion matches the name is passed over, the patterns after it being checked as
  if it were not in the table. Building the suggestion of a pattern gives a result, not
  an exception, whenever the property names of the signal's object are distinct and none
  is an array index, \<^verbatim>\<open>__proto__\<close> or \<^verbatim>\<open>hasOwnProperty\<close>.
\<close>

theorem first_matching_pattern_wins:
  assumes "id' signal = Some signalId" and "signalId \<noteq> []"
    and "name signal = Some signalName" and "signalName \<noteq> []"
    and "suggestedMetric signal = None"
  shows "SuggestedMetricSuggestionRule_validateSignal this signal node' =
       (case find (\<lambda>pattern. firstMatchCondition pattern signalId signalName)
          (metricPatterns this) of
          None \<Rightarrow> Inr None
        | Some pattern \<Rightarrow> suggestionOf signal node' pattern)
    \<and> (\<forall>before A between B after.
          metricPatterns this = before @ [A] @ between @ [B] @ after
          \<and> (\<forall>pattern\<in>set before. \<not> firstMatchCondition pattern signalId signalName)
          \<and> matchesPattern (idPattern A) signalId \<and> matchesPattern (idPattern B) signalId
          \<and> \<not> matchesPattern (excludeNamePattern A) signalName
          \<longrightarrow> SuggestedMetricSuggestionRule_validateSignal this signal node' =
                suggestionOf signal node' A)
    \<and> (\<forall>excluded rest.
          metricPatterns this = excluded # rest
          \<and> matchesPattern (excludeNamePattern excluded) signalName
          \<longrightarrow> SuggestedMetricSuggestionRule_validateSignal this signal node' =
                SuggestedMetricSuggestionRule_validateSignal (this\<lparr>metricPatterns := rest\<rparr>)
                  signal node')
    \<and> (\<forall>pattern.
          distinct (map fst (nodeValue node')) \<and> list_all plainKey (map fst (nodeValue node'))
          \<longrightarrow> (\<exists>rendered. suggestionOf signal node' pattern =
                Inr (Some (suggestionResult node' pattern rendered))))"
proof -
  have falsy: "\<not> truthy (suggestedMetric signal)"
    using assms(5) by simp
  note eq = validateSignal_find [OF assms(1-4) falsy]
  have first: "find P (before @ [A] @ more) = Some A" if "\<forall>p\<in>set before. \<not> P p" and "P A"
    for P :: "MetricPattern \<Rightarrow> bool" and before A more
    using that by (induction before) auto
  show ?thesis
  proof (intro conjI allI impI)
    show "SuggestedMetricSuggestionRule_validateSignal this signal node' =
       (case find (\<lambda>pattern. firstMatchCondition pattern signalId signalName)
          (metricPatterns this) of
          None \<Rightarrow> Inr None
        | Some pattern \<Rightarrow> suggestionOf signal node' pattern)"
      by (rule eq)
  next
    fix before A between B after
    assume h: "metricPatterns this = before @ [A] @ between @ [B] @ after
          \<and> (\<forall>pattern\<in>set before. \<not> firstMatchCondition pattern signalId signalName)
          \<and> matchesPattern (idPattern A) signalId \<and> matchesPattern (idPattern B) signalId
          \<and> \<not> matchesPattern (excludeNamePattern A) signalName"
    then have "firstMatchCondition A signalId signalName"
      by (simp add: firstMatchCondition_def)
    with h have "find (\<lambda>pattern. firstMatchCondition pattern signalId signalName)
        (metricPatterns this) = Some A"
      using first [of before "\<lambda>pattern. firstMatchCondition pattern signalId signalName" A
          "between @ [B] @ after"] by simp
    then show "SuggestedMetricSuggestionRule_validateSignal this signal node' =
        suggestionOf signal node' A"
      by (simp add: eq)
  next
    fix excluded rest
    assume h: "metricPatterns this = excluded # rest
          \<and> matchesPattern (excludeNamePattern excluded) signalName"
    then have "\<not> firstMatchCondition excluded signalId signalName"
      by (simp add: firstMatchCondition_def)
    with h show "SuggestedMetricSuggestionRule_validateSignal this signal node' =
        SuggestedMetricSuggestionRule_validateSignal (this\<lparr>metricPatterns := rest\<rparr>) signal node'"
      using validateSignal_find [OF assms(1-4) falsy, of "this\<lparr>metricPatterns := rest\<rparr>" node']
      by (simp add: eq)
  next
    fix pattern
    assume "distinct (map fst (nodeValue node')) \<and> list_all plainKey (map fst (nodeValue node'))"
    then show "\<exists>rendered. suggestionOf signal node' pattern =
        Inr (Some (suggestionResult node' pattern rendered))"
      using suggestionOf_plain [of node' signal pattern] by blast
  qed
qed

theorem first_matching_pattern_wins_witness:
  \<open>SuggestedMetricSuggestionRule_validateSignal exampleRule engineRpmSignal engineRpmNode =
     Inr (Some (suggestionResult engineRpmNode (examplePatterns ! 0)
       ''{"id":"ENGINE_RPM","name":"Engine RPM","suggestedMetric":"rpm"}''))
   \<and> SuggestedMetricSuggestionRule_validateSignal exampleRule targetRpmSignal targetRpmNode =
     Inr (Some (suggestionResult targetRpmNode (examplePatterns ! 1)
       ''{"id":"TARGET_RPM","name":"Target RPM","suggestedMetric":"targetRpm"}''))\<close>
proof -
  have engine: "id' engineRpmSignal = Some ''ENGINE_RPM''" "''ENGINE_RPM'' \<noteq> []"
    "name engineRpmSignal = Some ''Engine RPM''" "''Engine RPM'' \<noteq> []"
    "suggestedMetric engineRpmSignal = None"
    by (simp_all add: engineRpmSignal_def)
  have target: "id' targetRpmSignal = Some ''TARGET_RPM''" "''TARGET_RPM'' \<noteq> []"
    "name targetRpmSignal = Some ''Target RPM''" "''Target RPM'' \<noteq> []"
    "suggestedMetric targetRpmSignal = None"
    by (simp_all add: targetRpmSignal_def)
  have first: "find (\<lambda>pattern. firstMatchCondition pattern ''ENGINE_RPM'' ''Engine RPM'')
      (metricPatterns exampleRule) = Some (examplePatterns ! 0)"
    by (simp add: exampleRule_def examplePatterns_def firstMatchCondition_def matchesPattern_def)
  have second: "find (\<lambda>pattern. firstMatchCondition pattern ''TARGET_RPM'' ''Target RPM'')
      (metricPatterns exampleRule) = Some (examplePatterns ! 1)"
    by (simp add: exampleRule_def examplePatterns_def firstMatchCondition_def matchesPattern_def)
  have text1: \<open>suggestionOf engineRpmSignal engineRpmNode (examplePatterns ! 0) =
      Inr (Some (suggestionResult engineRpmNode (examplePatterns ! 0)
       ''{"id":"ENGINE_RPM","name":"Engine RPM","suggestedMetric":"rpm"}''))\<close>
    by code_simp
  have text2: \<open>suggestionOf targetRpmSignal targetRpmNode (examplePatterns ! 1) =
      Inr (Some (suggestionResult targetRpmNode (examplePatterns ! 1)
       ''{"id":"TARGET_RPM","name":"Target RPM","suggestedMetric":"targetRpm"}''))\<close>
    by code_simp
  show ?thesis
    using first_matching_pattern_wins [OF engine, of exampleRule engineRpmNode]
      first_matching_pattern_wins [OF target, of exampleRule targetRpmNode]
      first second text1 text2
    by simp
qed

text \<open>
  Claim C3 does not hold of the code for every signal. For the signal
  \<^verbatim>\<open>{"id":"X1","name":"Engine RPM","0":1}\<close> the replacement text starts with the property
  \<^verbatim>\<open>0\<close>, where the canonical order of the claim, and the comment of the code (line 82:
  \<^verbatim>\<open>id, path, fmt, name, suggestedMetric, then rest\<close>), put it after \<^verbatim>\<open>suggestedMetric\<close>.
  The rewritten signal is built as a JavaScript object, and the properties of an object
  that are named by an array index are enumerated before all others.
\<close>

theorem canonical_order_fails_for_index_keys:
  \<open>SuggestedMetricSuggestionRule_validateSignal exampleRule x1Signal indexKeyNode =
     Inr (Some (suggestionResult indexKeyNode (examplePatterns ! 0)
       ''{"0":1,"id":"X1","name":"Engine RPM","suggestedMetric":"rpm"}''))
   \<and> JSON_stringify (JObj (canonicalOrder (nodeValue indexKeyNode) ''rpm'')) =
       ''{"id":"X1","name":"Engine RPM","suggestedMetric":"rpm","0":1}''
   \<and> ''{"0":1,"id":"X1","name":"Engine RPM","suggestedMetric":"rpm"}'' \<noteq>
       JSON_stringify (JObj (canonicalOrder (nodeValue indexKeyNode) ''rpm''))\<close>
  by code_simp

theorem canonical_order_fails_for_index_keys_witness:
  "SuggestedMetricSuggestionRule_validateSignal exampleRule x1Signal indexKeyNode \<noteq>
     Inr (Some (suggestionResult indexKeyNode (examplePatterns ! 0)
       (JSON_stringify (JObj (canonicalOrder (nodeValue indexKeyNode) ''rpm'')))))"
  using canonical_order_fails_for_index_keys by (simp add: suggestionResult_def)

text \<open>
  What does hold of the replacement text. When the rule matches a pattern and the
  property names of the signal's object are distinct and none is an array index,
  \<^verbatim>\<open>__proto__\<close> or \<^verbatim>\<open>hasOwnProperty\<close>, the rule returns exactly one result, whose
  suggestion has a single edit with the offset and length of the signal's node and whose
  replacement text is \<^verbatim>\<open>JSON.stringify\<close> of the signal with its properties in canonical
  order: \<^verbatim>\<open>id\<close>, \<^verbatim>\<open>path\<close>, \<^verbatim>\<open>fmt\<close>, \<^verbatim>\<open>name\<close> (each only if present), then
  \<^verbatim>\<open>suggestedMetric\<close>, then the remaining properties in their original order. For
  \<^verbatim>\<open>{"id":"X1","name":"Engine RPM","unit":"rpm"}\<close> and the suggestion \<^verbatim>\<open>rpm\<close> the text is
  \<^verbatim>\<open>{"id":"X1","name":"Engine RPM","suggestedMetric":"rpm","unit":"rpm"}\<close>.
\<close>

theorem suggestion_rewrites_signal_in_canonical_order:
  assumes "id' signal = Some signalId" and "signalId \<noteq> []"
    and "name signal = Some signalName" and "signalName \<noteq> []"
    and "\<not> truthy (suggestedMetric signal)"
    and "find (\<lambda>pattern. firstMatchCondition pattern signalId signalName)
           (metricPatterns this) = Some pattern"
    and "distinct (map fst (nodeValue node'))"
    and "list_all plainKey (map fst (nodeValue node'))"
  shows "SuggestedMetricSuggestionRule_validateSignal this signal node' =
     Inr (Some (suggestionResult node' pattern
       (JSON_stringify (JObj (canonicalOrder (nodeValue node')
          (pattern_suggestedMetric pattern))))))"
  using validateSignal_find [OF assms(1-5), of this node'] assms(6)
    createSignalWithSuggestedMetric_canonical [OF assms(7,8), of signal
      "pattern_suggestedMetric pattern"]
  by (simp add: suggestionOf_def)

theorem suggestion_rewrites_signal_in_canonical_order_witness:
  \<open>SuggestedMetricSuggestionRule_validateSignal exampleRule x1Signal x1Node =
     Inr (Some
       \<lparr>ruleId = ''suggested-metric-suggestion'',
        message = ''Consider adding suggestedMetric: "rpm" (Engine speed)'',
        node = x1Node,
        suggestion = Some
          \<lparr>title = ''Add suggestedMetric: "rpm"'',
           edits =
             [\<lparr>newText = ''{"id":"X1","name":"Engine RPM","suggestedMetric":"rpm","unit":"rpm"}'',
               edit_offset = 55, edit_length = 44\<rparr>]\<rparr>\<rparr>)\<close>
proof -
  have signal: "id' x1Signal = Some ''X1''" "''X1'' \<noteq> []"
    "name x1Signal = Some ''Engine RPM''" "''Engine RPM'' \<noteq> []"
    "\<not> truthy (suggestedMetric x1Signal)"
    by (simp_all add: x1Signal_def)
  have first: "find (\<lambda>pattern. firstMatchCondition pattern ''X1'' ''Engine RPM'')
      (metricPatterns exampleRule) = Some (examplePatterns ! 0)"
    by (simp add: exampleRule_def examplePatterns_def firstMatchCondition_def matchesPattern_def)
  have keys: "distinct (map fst (nodeValue x1Node))" "list_all plainKey (map fst (nodeValue x1Node))"
    by (simp_all add: x1Node_def plainKey_def isArrayIndex_def isDigit_def)
  have rendered: \<open>suggestionResult x1Node (examplePatterns ! 0)
      (JSON_stringify (JObj (canonicalOrder (nodeValue x1Node)
          (pattern_suggestedMetric (examplePatterns ! 0))))) =
       \<lparr>ruleId = ''suggested-metric-suggestion'',
        message = ''Consider adding suggestedMetric: "rpm" (Engine speed)'',
        node = x1Node,
        suggestion = Some
          \<lparr>title = ''Add suggestedMetric: "rpm"'',
           edits =
             [\<lparr>newText = ''{"id":"X1","name":"Engine RPM","suggestedMetric":"rpm","unit":"rpm"}'',
               edit_offset = 55, edit_length = 44\<rparr>]\<rparr>\<rparr>\<close>
    by code_simp
  show ?thesis
    using suggestion_rewrites_signal_in_canonical_order [OF signal first keys] rendered
    by simp
qed

text \<open>
  Claim C4, as amended. For every signal that carries a non-empty \<^verbatim>\<open>suggestedMetric\<close>, or
  that lacks \<^verbatim>\<open>id\<close>, or that lacks \<^verbatim>\<open>name\<close>, \<open>validateSignal\<close> returns \<^verbatim>\<open>null\<close>, whatever
  the pattern table holds.
\<close>

theorem validateSignal_skips_signal:
  assumes "(\<exists>metric. suggestedMetric signal = Some metric \<and> metric \<noteq> [])
      \<or> id' signal = None \<or> name signal = None"
  shows "SuggestedMetricSuggestionRule_validateSignal this signal node' = Inr None"
  using assms by (auto simp: SuggestedMetricSuggestionRule_validateSignal_def)

theorem validateSignal_skips_signal_witness:
  "SuggestedMetricSuggestionRule_validateSignal exampleRule
     (engineRpmSignal\<lparr>suggestedMetric := Some ''rpm''\<rparr>) engineRpmNode = Inr None
   \<and> SuggestedMetricSuggestionRule_validateSignal exampleRule
     (engineRpmSignal\<lparr>id' := None\<rparr>) engineRpmNode = Inr None
   \<and> SuggestedMetricSuggestionRule_validateSignal exampleRule
     (engineRpmSignal\<lparr>name := None\<rparr>) engineRpmNode = Inr None"
  using validateSignal_skips_signal [of "engineRpmSignal\<lparr>suggestedMetric := Some ''rpm''\<rparr>"
      exampleRule engineRpmNode]
    validateSignal_skips_signal [of "engineRpmSignal\<lparr>id' := None\<rparr>" exampleRule engineRpmNode]
    validateSignal_skips_signal [of "engineRpmSignal\<lparr>name := None\<rparr>" exampleRule engineRpmNode]
  by simp

text \<open>
  Claim C4 as stated fails for a signal that carries the empty string as its
  \<^verbatim>\<open>suggestedMetric\<close>: the test \<^verbatim>\<open>if (signal.suggestedMetric)\<close> is false for it, and the
  rule goes on to suggest a metric.
\<close>

theorem empty_suggestedMetric_is_not_skipped:
  \<open>suggestedMetric emptyMetricSignal = Some []
   \<and> SuggestedMetricSuggestionRule_validateSignal exampleRule emptyMetricSignal emptyMetricNode =
     Inr (Some (suggestionResult emptyMetricNode (examplePatterns ! 0)
       ''{"id":"ENGINE_RPM","name":"Engine RPM","suggestedMetric":"rpm"}''))
   \<and> SuggestedMetricSuggestionRule_validateSignal exampleRule emptyMetricSignal emptyMetricNode
     \<noteq> Inr None\<close>
  by code_simp

text \<open>
  Claim C5. Idempotence of the suggestion, for a table whose patterns suggest non-empty
  metrics (the inserted non-empty \<^verbatim>\<open>suggestedMetric\<close> of the claim), a signal object
  whose number tokens are well formed, and a buffer that holds the span of the signal's
  node. Whenever \<open>validateSignal\<close> returns a result, its suggestion has a single edit; in
  the buffer that applying the edit gives, the parser reads an object at the offset of the
  signal's node and leaves the text that followed the node; and for every signal that
  views this object, at every node whose value the object is, \<open>validateSignal\<close> returns
  \<^verbatim>\<open>null\<close>.
\<close>

theorem suggestion_is_idempotent:
  assumes emits: "SuggestedMetricSuggestionRule_validateSignal this signal node' = Inr (Some result)"
    and nonempty: "\<forall>pattern\<in>set (metricPatterns this). pattern_suggestedMetric pattern \<noteq> []"
    and numbers: "validNumbers (JObj (nodeValue node'))"
    and inside: "offset node' + length' node' \<le> length original"
  shows "\<exists>edit heading reparsed.
      suggestion result = Some \<lparr>title = heading, edits = [edit]\<rparr>
      \<and> reparseAt (applyEdit original edit) (offset node') =
          Some (JObj reparsed, drop (offset node' + length' node') original)
      \<and> (\<forall>signal' reparsedNode.
            isSignalView reparsed signal' \<and> nodeValue reparsedNode = reparsed \<longrightarrow>
            SuggestedMetricSuggestionRule_validateSignal this signal' reparsedNode = Inr None)"
proof -
  from validateSignal_result [OF emits] obtain pattern
    where pattern: "pattern \<in> set (metricPatterns this)"
      and match: "matchResult signal node' pattern = Inr result"
    by blast
  let ?metric = "pattern_suggestedMetric pattern"
  from match obtain rendered
    where created: "createSignalWithSuggestedMetric signal node' ?metric = Inr rendered"
      and result: "result = suggestionResult node' pattern rendered"
    by (auto simp: matchResult_suggestionResult split: sum.splits)
  from createSignalWithSuggestedMetric_object [OF created] obtain rewritten
    where rendered: "rendered = JSON_stringify (JObj rewritten)"
      and member: "(''suggestedMetric'', JStr ?metric) \<in> set rewritten"
      and distinct: "distinct (map fst rewritten)"
      and origin: "snd ` set rewritten \<subseteq> insert (JStr ?metric) (snd ` set (nodeValue node'))"
    by blast
  let ?edit = "\<lparr>newText = rendered, edit_offset = offset node', edit_length = length' node'\<rparr>"
  let ?after = "drop (offset node' + length' node') original"
  let ?reparsed = "buildObject (map (\<lambda>(key, v). (key, getNodeValue v)) rewritten)"
  from numbers origin have "validNumbers (JObj rewritten)"
    by fastforce
  then have trips: "roundTrips (JObj rewritten)"
    by (rule parseValue_stringify)
  from inside have start: "drop (offset node') (applyEdit original ?edit) = rendered @ ?after"
    by (simp add: applyEdit_def)
  from inside have "length rendered \<le> length (applyEdit original ?edit)"
    by (simp add: applyEdit_def)
  with trips rendered
  have "parseValue (length (applyEdit original ?edit)) (rendered @ ?after) = Some (JObj rewritten, ?after)"
    by (simp add: roundTrips_def del: JSON_stringify.simps)
  with start have reparse: "reparseAt (applyEdit original ?edit) (offset node') =
      Some (JObj ?reparsed, ?after)"
    by (simp add: reparseAt_def)
  from member have "(''suggestedMetric'', getNodeValue (JStr ?metric))
      \<in> set (map (\<lambda>(key, v). (key, getNodeValue v)) rewritten)"
    by force
  moreover from distinct have "distinct (map fst (map (\<lambda>(key, v). (key, getNodeValue v)) rewritten))"
    by (simp add: case_prod_beta comp_def)
  ultimately have metric: "map_of ?reparsed ''suggestedMetric'' = Some (JStr ?metric)"
    using map_of_buildObject by fastforce
  from pattern nonempty have "?metric \<noteq> []"
    by blast
  with metric have "SuggestedMetricSuggestionRule_validateSignal this signal' reparsedNode = Inr None"
    if "isSignalView ?reparsed signal'" for signal' and reparsedNode :: "JsProperties Node"
    using that by (simp add: isSignalView_def SuggestedMetricSuggestionRule_validateSignal_def)
  with reparse result show ?thesis
    by (auto simp: suggestionResult_def)
qed

theorem suggestion_is_idempotent_witness:
  \<open>reparseAt (applyEdit exampleSource
       \<lparr>newText = ''{"id":"ENGINE_RPM","name":"Engine RPM","suggestedMetric":"rpm"}'',
        edit_offset = 55, edit_length = 39\<rparr>) 55 =
     Some (JObj [(''id'', JStr ''ENGINE_RPM''), (''name'', JStr ''Engine RPM''),
        (''suggestedMetric'', JStr ''rpm'')], '']}]}'')
   \<and> SuggestedMetricSuggestionRule_validateSignal exampleRule
       (engineRpmSignal\<lparr>suggestedMetric := Some ''rpm''\<rparr>)
       \<lparr>offset = 55, length' = 63,
        nodeValue = [(''id'', JStr ''ENGINE_RPM''), (''name'', JStr ''Engine RPM''),
          (''suggestedMetric'', JStr ''rpm'')]\<rparr> = Inr None\<close>
proof -
  let ?edit = \<open>\<lparr>newText = ''{"id":"ENGINE_RPM","name":"Engine RPM","suggestedMetric":"rpm"}'',
        edit_offset = 55, edit_length = 39\<rparr>\<close>
  let ?reparsed = "[(''id'', JStr ''ENGINE_RPM''), (''name'', JStr ''Engine RPM''),
        (''suggestedMetric'', JStr ''rpm'')]"
  have emits: \<open>SuggestedMetricSuggestionRule_validateSignal exampleRule engineRpmSignal
      engineRpmNode = Inr (Some (suggestionResult engineRpmNode (examplePatterns ! 0)
        ''{"id":"ENGINE_RPM","name":"Engine RPM","suggestedMetric":"rpm"}''))\<close>
    by code_simp
  have nonempty: "\<forall>pattern\<in>set (metricPatterns exampleRule). pattern_suggestedMetric pattern \<noteq> []"
    by (simp add: exampleRule_def examplePatterns_def)
  have numbers: "validNumbers (JObj (nodeValue engineRpmNode))"
    by (simp add: engineRpmNode_def)
  have inside: "offset engineRpmNode + length' engineRpmNode \<le> length exampleSource"
    by (simp add: engineRpmNode_def exampleSource_def)
  have computed: "reparseAt (applyEdit exampleSource ?edit) 55 = Some (JObj ?reparsed, '']}]}'')"
    by code_simp
  from suggestion_is_idempotent [OF emits nonempty numbers inside] obtain edit heading reparsed
    where suggested: "suggestion (suggestionResult engineRpmNode (examplePatterns ! 0)
        (newText ?edit)) = Some \<lparr>title = heading, edits = [edit]\<rparr>"
      and reparse: "reparseAt (applyEdit exampleSource edit) (offset engineRpmNode) =
          Some (JObj reparsed, drop (offset engineRpmNode + length' engineRpmNode) exampleSource)"
      and again: "\<forall>signal' reparsedNode.
            isSignalView reparsed signal' \<and> nodeValue reparsedNode = reparsed \<longrightarrow>
            SuggestedMetricSuggestionRule_validateSignal exampleRule signal' reparsedNode = Inr None"
    by auto
  from suggested have "edit = ?edit"
    by (simp add: suggestionResult_def engineRpmNode_def)
  with reparse computed have "reparsed = ?reparsed"
    by (simp add: engineRpmNode_def)
  moreover have "isSignalView ?reparsed (engineRpmSignal\<lparr>suggestedMetric := Some ''rpm''\<rparr>)"
    by (simp add: isSignalView_def engineRpmSignal_def)
  ultimately have "SuggestedMetricSuggestionRule_validateSignal exampleRule
       (engineRpmSignal\<lparr>suggestedMetric := Some ''rpm''\<rparr>)
       \<lparr>offset = 55, length' = 63, nodeValue = ?reparsed\<rparr> = Inr None"
    using again by simp
  with computed show ?thesis
    by simp
qed

section \<open>Properties of the front-ends\<close>







text \<open>
  Claim C9 says the three groups of the command-line front-end are pairwise disjoint.
  The filters for errors and for warnings are independent: a result whose message
  contains both \<^verbatim>\<open>error\<close> and \<^verbatim>\<open>warning\<close> is listed in both groups.
\<close>

theorem cli_grouping_lists_a_result_twice:
  "cli_lintCommand_errors [overlappingResult] = [overlappingResult]
   \<and> cli_lintCommand_warnings [overlappingResult] = [overlappingResult]
   \<and> cli_lintCommand_info [overlappingResult] = []"
  by (simp add: cli_lintCommand_errors_def cli_lintCommand_warnings_def cli_lintCommand_info_def
      overlappingResult_def)

text \<open>
  What does hold of the three groups: every result is in at least one of them, and no
  result of the third group is in one of the other two.
\<close>

theorem cli_groups_cover_results:
  "set (cli_lintCommand_errors allResults) \<union> set (cli_lintCommand_warnings allResults)
     \<union> set (cli_lintCommand_info allResults) = set allResults
   \<and> set (cli_lintCommand_info allResults)
     \<inter> (set (cli_lintCommand_errors allResults) \<union> set (cli_lintCommand_warnings allResults)) = {}"
  by (auto simp: cli_lintCommand_errors_def cli_lintCommand_warnings_def
      cli_lintCommand_info_def Let_def)

end
